theory Spec2Isabelle
  imports Main
begin

section \<open>ADRD care system: the appointment negotiation of \<open>agent.py\<close>\<close>

text \<open>
  A shallow embedding of \<open>src/agent.py\<close>: the availability client
  (\<open>get_doctor_availability\<close>), the multi-day scanner (\<open>check_next_available_slots\<close>),
  the booking client (\<open>book_appointment\<close>), the retrying agent wrapper
  (\<open>process_message\<close>) and the \<open>/chat\<close> handler (\<open>chat\<close>).

  Conventions of the model.
  \<^item> Decoded JSON is typed by the contracts the code reads it under: field values are
    strings, \<open>available_times\<close> is a list of strings, a decoded body is a JSON object.
    A Python dict with optional keys is a record of \<open>option\<close> fields (\<open>None\<close>: key absent)
    or an association list read with \<open>map_of\<close>.
  \<^item> The outside world (scheduling service, language-model agents) is a state machine
    \<open>'w\<close> driven through the functions of an \<open>env\<close> record; every call to it, every log
    record and every sleep is appended to the \<open>trace\<close> of the state.
  \<^item> An exception is a value of type \<open>exn\<close>; a function that can raise returns
    \<open>exn + 'a\<close>.
  \<^item> A string holds the UTF-8 bytes of the Python string; \<open>\<newline>\<close> is Python's line
    feed.
\<close>

subsection \<open>Data\<close>

text \<open>The dict \<open>details\<close> of a booking request, as decoded from the orchestrator's reply.\<close>

type_synonym details = "(string \<times> string) list"

text \<open>A decoded JSON object of the scheduling service. The code reads two of its keys:
  \<open>available_times\<close> (availability endpoint) and \<open>detail\<close> (booking endpoint).\<close>

record body =
  body_available_times :: "string list option"
  body_detail :: "string option"
  body_rest :: "(string \<times> string) list"

text \<open>What one \<open>httpx\<close> request does: it raises \<open>TimeoutException\<close>, raises something
  else, or returns a response with a status code whose \<open>.json()\<close> either
  decodes (\<open>Some\<close>) or raises (\<open>None\<close>).\<close>

datatype http_result =
    Timeout
  | OtherError
  | Response nat "body option"

datatype swarm_agent = orchestrator_agent | medical_agent | appointment_agent

text \<open>One conversation message: role and content.\<close>

type_synonym msg = "string \<times> string"

text \<open>The orchestrator's decoded routing dict.\<close>

record routing =
  r_agent :: "string option"
  r_details :: "details option"
  r_missing_fields :: "string list option"
  r_response :: "string option"

datatype exn =
    KeyError string
  | ValueError
  | OverflowError
  | TypeError
  | NameError string
  | ValidationError
  | HTTPException nat string

text \<open>One entry of the scanner's result: \<open>{"date": ..., "times": ...}\<close>.\<close>

record day_slots =
  day_date :: string
  day_times :: "string list"

text \<open>The log records of the module, one constructor per logging site, with the values
  the message interpolates (the text of a caught exception is not modelled).\<close>

datatype log_record =
    AvailabilityTimeout string
  | AvailabilityHttpError nat
  | AvailabilityUnexpected
  | ScanErrors string
  | BookingSuccess string
  | BookingFailed body
  | BookingConflict
  | BookingTimeout
  | BookingError
  | AttemptFailed nat
  | InvalidOrchestratorFormat string
  | ChatError exn

datatype log_level = INFO | WARNING | ERROR

datatype event =
    HttpGet string string
  | HttpPost details
  | AgentRun swarm_agent "msg list"
  | Sleep nat
  | Log log_level log_record

record 'w state =
  world :: 'w
  trace :: "event list"

text \<open>The collaborators. \<open>http_get w doctor_id date\<close> is the GET of
  \<open>/doctor/availability\<close>, \<open>http_post w details\<close> the POST of \<open>/appointments/book\<close>,
  \<open>client_run w agent conversation\<close> the content of the last message of \<open>client.run\<close>
  (\<open>None\<close>: the call or the indexing raised), \<open>json_loads\<close> is \<open>json.loads\<close> on the
  orchestrator's reply (\<open>None\<close>: \<open>JSONDecodeError\<close>), and \<open>asyncio_bound\<close> tells whether the
  name \<open>asyncio\<close> is bound in the module: its only import is inside the
  \<open>if __name__ == "__main__"\<close> block at the end of the file.\<close>

record 'w env =
  http_get :: "'w \<Rightarrow> string \<Rightarrow> string \<Rightarrow> http_result \<times> 'w"
  http_post :: "'w \<Rightarrow> details \<Rightarrow> http_result \<times> 'w"
  client_run :: "'w \<Rightarrow> swarm_agent \<Rightarrow> msg list \<Rightarrow> string option \<times> 'w"
  json_loads :: "string \<Rightarrow> routing option"
  asyncio_bound :: bool

text \<open>The dicts returned by \<open>get_doctor_availability\<close> and \<open>book_appointment\<close>, with
  their keys \<open>success\<close>, \<open>data\<close>, \<open>available_times\<close>, \<open>error\<close> and \<open>alternatives\<close>.\<close>

record outcome =
  o_success :: bool
  o_data :: "body option"
  o_available_times :: "string list option"
  o_error :: "string option"
  o_alternatives :: "string list option"

datatype suggestions =
    SameDay "string list" string
  | MultiDay "day_slots list"

record MessageResponse =
  response :: string
  agent :: string
  ctx :: "(string \<times> string) list option"
  suggestions :: "suggestions option"

record MessageRequest =
  req_message :: string
  req_history :: "msg list option"

subsection \<open>Helpers\<close>

definition emit :: "event \<Rightarrow> 'w state \<Rightarrow> 'w state" where
  "emit e st = st\<lparr>trace := trace st @ [e]\<rparr>"

definition is_network :: "event \<Rightarrow> bool" where
  "is_network e = (case e of HttpGet _ _ \<Rightarrow> True | HttpPost _ \<Rightarrow> True | _ \<Rightarrow> False)"

definition network_calls :: "event list \<Rightarrow> event list" where
  "network_calls es = filter is_network es"



text \<open>\<open>d.get(key, default)\<close> on an optional key.\<close>

definition get_default :: "'a option \<Rightarrow> 'a \<Rightarrow> 'a" where
  "get_default v d = (case v of None \<Rightarrow> d | Some x \<Rightarrow> x)"

text \<open>\<open>sep.join(xs)\<close>.\<close>

fun join :: "string \<Rightarrow> string list \<Rightarrow> string" where
  "join sep [] = []"
| "join sep [x] = x"
| "join sep (x # y # ys) = x @ sep @ join sep (y # ys)"

definition failure :: "string \<Rightarrow> outcome" where
  "failure e = \<lparr>o_success = False, o_data = None, o_available_times = None,
                 o_error = Some e, o_alternatives = None\<rparr>"

subsection \<open>\<open>get_doctor_availability\<close>\<close>

text \<open>\<open>raise_for_status\<close> passes exactly the 2xx responses.\<close>

definition is_success :: "nat \<Rightarrow> bool" where
  "is_success status = (200 \<le> status \<and> status < 300)"

definition get_doctor_availability ::
  "'w env \<Rightarrow> string \<Rightarrow> string \<Rightarrow> 'w state \<Rightarrow> outcome \<times> 'w state" where
  "get_doctor_availability env doctor_id date st =
    (case http_get env (world st) doctor_id date of (r, w) \<Rightarrow>
      let st1 = emit (HttpGet doctor_id date) (st\<lparr>world := w\<rparr>) in
      (case r of
        Timeout \<Rightarrow>
          (failure ''Service temporarily unavailable'',
           emit (Log ERROR (AvailabilityTimeout doctor_id)) st1)
      | OtherError \<Rightarrow>
          (failure ''An unexpected error occurred'',
           emit (Log ERROR AvailabilityUnexpected) st1)
      | Response status b \<Rightarrow>
          if \<not> is_success status then
            (failure ''Unable to fetch availability'',
             emit (Log ERROR (AvailabilityHttpError status)) st1)
          else
            (case b of
              None \<Rightarrow>
                (failure ''An unexpected error occurred'',
                 emit (Log ERROR AvailabilityUnexpected) st1)
            | Some d \<Rightarrow>
                (\<lparr>o_success = True, o_data = Some d,
                  o_available_times = Some (get_default (body_available_times d) []),
                  o_error = None, o_alternatives = None\<rparr>, st1))))"

subsection \<open>Dates: \<open>strptime\<close>, \<open>timedelta(days=1)\<close>, \<open>strftime\<close> for \<open>%m/%d/%Y\<close>\<close>

text \<open>
  The library calls of the scanner, as CPython 3.11 on glibc performs them. A Python
  string is a sequence of code points, and a model string holds its UTF-8 bytes, so the
  date is first decoded. The pattern of \<open>strptime\<close> is matched on code points: the
  classes \<open>[0-2]\<close> and \<open>[1-9]\<close> hold ASCII digits only, whereas \<open>\d\<close> matches every
  decimal digit of Unicode (version 14.0 in this Python), and \<open>int\<close> reads its value.
\<close>

text \<open>A \<open>datetime\<close> at midnight: year, month, day.\<close>

type_synonym datetime = "nat \<times> nat \<times> nat"

text \<open>The code points of a UTF-8 byte sequence. On the encoding of a Python string this
  is the string; a byte sequence that is not UTF-8 encodes no string.\<close>

definition cont :: "int list \<Rightarrow> nat \<Rightarrow> int" where
  "cont bs i = (if i < length bs then bs ! i - 128 else 0)"

function code_points :: "int list \<Rightarrow> int list" where
  "code_points [] = []"
| "code_points (b # bs) =
     (if b < 192 then b # code_points bs
      else if b < 224 then
        ((b - 192) * 64 + cont bs 0) # code_points (drop 1 bs)
      else if b < 240 then
        ((b - 224) * 4096 + cont bs 0 * 64 + cont bs 1) # code_points (drop 2 bs)
      else
        ((b - 240) * 262144 + cont bs 0 * 4096 + cont bs 1 * 64 + cont bs 2)
          # code_points (drop 3 bs))"
  by pat_completeness auto
termination
  by (relation "measure length") auto

text \<open>The code points of the digit zero of every block of decimal digits (general
  category \<open>Nd\<close>) of Unicode 14.0; each block holds the ten digits in order.\<close>

definition digit_zeros :: "int list" where
  "digit_zeros =
     [0x30, 0x660, 0x6F0, 0x7C0, 0x966, 0x9E6, 0xA66, 0xAE6, 0xB66, 0xBE6, 0xC66,
      0xCE6, 0xD66, 0xDE6, 0xE50, 0xED0, 0xF20, 0x1040, 0x1090, 0x17E0, 0x1810,
      0x1946, 0x19D0, 0x1A80, 0x1A90, 0x1B50, 0x1BB0, 0x1C40, 0x1C50, 0xA620,
      0xA8D0, 0xA900, 0xA9D0, 0xA9F0, 0xAA50, 0xABF0, 0xFF10, 0x104A0, 0x10D30,
      0x11066, 0x110F0, 0x11136, 0x111D0, 0x112F0, 0x11450, 0x114D0, 0x11650,
      0x116C0, 0x11730, 0x118E0, 0x11950, 0x11C50, 0x11D50, 0x11DA0, 0x16A60,
      0x16AC0, 0x16B50, 0x1D7CE, 0x1D7D8, 0x1D7E2, 0x1D7EC, 0x1D7F6, 0x1E140,
      0x1E2F0, 0x1E950, 0x1FBF0]"

text \<open>The value of a code point that \<open>\d\<close> matches; \<open>None\<close> when it does not match.\<close>

definition decimal_of :: "int \<Rightarrow> nat option" where
  "decimal_of c =
     (case find (\<lambda>z. z \<le> c \<and> c < z + 10) digit_zeros of
        None \<Rightarrow> None
      | Some z \<Rightarrow> Some (nat (c - z)))"

text \<open>An ASCII digit, as the classes \<open>[0-9]\<close> of the pattern read it, and its value.\<close>

definition is_digit :: "int \<Rightarrow> bool" where
  "is_digit c = (48 \<le> c \<and> c \<le> 57)"

definition digit_val :: "int \<Rightarrow> nat" where
  "digit_val c = nat (c - 48)"

definition digit_char :: "nat \<Rightarrow> char" where
  "digit_char n = ''0123456789'' ! (n mod 10)"

fun split_on :: "int \<Rightarrow> int list \<Rightarrow> int list list" where
  "split_on c [] = [[]]"
| "split_on c (x # xs) =
     (if x = c then [] # split_on c xs
      else (case split_on c xs of [] \<Rightarrow> [[x]] | w # ws \<Rightarrow> (x # w) # ws))"

text \<open>The directive \<open>%m\<close> matches \<open>1[0-2]|0[1-9]|[1-9]\<close>.\<close>

fun parse_month :: "int list \<Rightarrow> nat option" where
  "parse_month [a] =
     (if is_digit a \<and> a \<noteq> 48 then Some (digit_val a) else None)"
| "parse_month [a, b] =
     (if a = 49 \<and> is_digit b \<and> digit_val b \<le> 2 then Some (10 + digit_val b)
      else if a = 48 \<and> is_digit b \<and> b \<noteq> 48 then Some (digit_val b)
      else None)"
| "parse_month _ = None"

text \<open>The directive \<open>%d\<close> matches \<open>3[0-1]|[1-2]\d|0[1-9]|[1-9]| [1-9]\<close>.\<close>

fun parse_day :: "int list \<Rightarrow> nat option" where
  "parse_day [a] =
     (if is_digit a \<and> a \<noteq> 48 then Some (digit_val a) else None)"
| "parse_day [a, b] =
     (if a = 51 \<and> is_digit b \<and> digit_val b \<le> 1 then Some (30 + digit_val b)
      else if a = 49 \<or> a = 50 then
        (case decimal_of b of
           None \<Rightarrow> None
         | Some v \<Rightarrow> Some (10 * digit_val a + v))
      else if (a = 48 \<or> a = 32) \<and> is_digit b \<and> b \<noteq> 48 then Some (digit_val b)
      else None)"
| "parse_day _ = None"

text \<open>The directive \<open>%Y\<close> matches \<open>\d\d\d\d\<close>.\<close>

fun parse_year :: "int list \<Rightarrow> nat option" where
  "parse_year [a, b, c, d] =
     (case (decimal_of a, decimal_of b, decimal_of c, decimal_of d) of
        (Some v3, Some v2, Some v1, Some v0) \<Rightarrow>
          Some (1000 * v3 + 100 * v2 + 10 * v1 + v0)
      | _ \<Rightarrow> None)"
| "parse_year _ = None"

definition is_leap :: "nat \<Rightarrow> bool" where
  "is_leap y = (y mod 4 = 0 \<and> (y mod 100 \<noteq> 0 \<or> y mod 400 = 0))"

definition days_in_month :: "nat \<Rightarrow> nat \<Rightarrow> nat" where
  "days_in_month y m =
     (if m = 2 then (if is_leap y then 29 else 28)
      else if m = 4 \<or> m = 6 \<or> m = 9 \<or> m = 11 then 30 else 31)"

text \<open>\<open>datetime.strptime(s, "%m/%d/%Y")\<close>; \<open>None\<close> is the \<open>ValueError\<close> it raises when the
  string does not match the format or names no day of the calendar (years 1 to 9999).
  The separator \<open>/\<close> is code point 47.\<close>

definition strptime :: "string \<Rightarrow> datetime option" where
  "strptime s =
     (case split_on 47 (code_points (map of_char s)) of
        [ms, ds, ys] \<Rightarrow>
          (case (parse_month ms, parse_day ds, parse_year ys) of
             (Some m, Some d, Some y) \<Rightarrow>
               if 1 \<le> y \<and> d \<le> days_in_month y m then Some (y, m, d) else None
           | _ \<Rightarrow> None)
      | _ \<Rightarrow> None)"

text \<open>\<open>current_date + timedelta(days=1)\<close>; \<open>None\<close> is the \<open>OverflowError\<close> past
  12/31/9999.\<close>

definition add_day :: "datetime \<Rightarrow> datetime option" where
  "add_day dt =
     (case dt of (y, m, d) \<Rightarrow>
        if d < days_in_month y m then Some (y, m, d + 1)
        else if m < 12 then Some (y, m + 1, 1)
        else if y < 9999 then Some (y + 1, 1, 1)
        else None)"

text \<open>A number in decimal, without padding.\<close>

fun decimal :: "nat \<Rightarrow> string" where
  "decimal n =
     (if n < 10 then [digit_char n] else decimal (n div 10) @ [digit_char (n mod 10)])"

declare decimal.simps [simp del]

text \<open>\<open>current_date.strftime("%m/%d/%Y")\<close>: month and day with two digits, and the year
  as glibc writes \<open>%Y\<close>, in decimal without padding (\<open>01/01/999\<close> for the first day of
  year 999).\<close>

definition strftime :: "datetime \<Rightarrow> string" where
  "strftime dt =
     (case dt of (y, m, d) \<Rightarrow>
        [digit_char (m div 10), digit_char m, CHR ''/'',
         digit_char (d div 10), digit_char d, CHR ''/''] @ decimal y)"

subsection \<open>\<open>check_next_available_slots\<close>\<close>

text \<open>The body of \<open>for _ in range(num_days)\<close>, with the locals \<open>current_date\<close>,
  \<open>available_slots\<close> and \<open>errors\<close> as arguments.\<close>

fun scan_days ::
  "'w env \<Rightarrow> string \<Rightarrow> nat \<Rightarrow> datetime \<Rightarrow> day_slots list \<Rightarrow> string list \<Rightarrow> 'w state
     \<Rightarrow> (exn + day_slots list \<times> string list) \<times> 'w state" where
  "scan_days env doctor_id 0 current_date available_slots errors st =
     (Inr (available_slots, errors), st)"
| "scan_days env doctor_id (Suc n) current_date available_slots errors st =
     (let date_str = strftime current_date in
      case get_doctor_availability env doctor_id date_str st of (availability, st1) \<Rightarrow>
        let available_slots1 =
              (if o_success availability \<and> get_default (o_available_times availability) [] \<noteq> []
               then available_slots @
                      [\<lparr>day_date = date_str,
                        day_times = get_default (o_available_times availability) []\<rparr>]
               else available_slots);
            errors1 =
              (if o_success availability then errors
               else errors @
                      [''Error checking '' @ date_str @ '': '' @
                         get_default (o_error availability) ''None'']) in
        (case add_day current_date of
           None \<Rightarrow> (Inl OverflowError, st1)
         | Some next_date \<Rightarrow>
             scan_days env doctor_id n next_date available_slots1 errors1 st1))"

definition check_next_available_slots ::
  "'w env \<Rightarrow> string \<Rightarrow> string \<Rightarrow> int \<Rightarrow> 'w state \<Rightarrow> (exn + day_slots list) \<times> 'w state" where
  "check_next_available_slots env doctor_id start_date num_days st =
     (case strptime start_date of
        None \<Rightarrow> (Inl ValueError, st)
      | Some current_date \<Rightarrow>
          (case scan_days env doctor_id (nat num_days) current_date [] [] st of
             (Inl e, st1) \<Rightarrow> (Inl e, st1)
           | (Inr (available_slots, errors), st1) \<Rightarrow>
               (Inr available_slots,
                if errors \<noteq> []
                then emit (Log WARNING (ScanErrors (join ''; '' errors))) st1
                else st1)))"

subsection \<open>\<open>book_appointment\<close>\<close>

definition required_fields :: "string list" where
  "required_fields = [''doctor_id'', ''preferred_date'', ''preferred_time'']"

text \<open>\<open>not details.get(field)\<close>: the key is absent or its value is the empty string.\<close>

definition field_missing :: "details \<Rightarrow> string \<Rightarrow> bool" where
  "field_missing details field = (get_default (map_of details field) [] = [])"

definition book_appointment :: "'w env \<Rightarrow> details \<Rightarrow> 'w state \<Rightarrow> outcome \<times> 'w state" where
  "book_appointment env details st =
    (let missing_fields = filter (field_missing details) required_fields in
     if missing_fields \<noteq> [] then
       (failure (''Missing required fields: '' @ join '', '' missing_fields), st)
     else
       (case http_post env (world st) details of (r, w) \<Rightarrow>
         let st1 = emit (HttpPost details) (st\<lparr>world := w\<rparr>) in
         (case r of
           Timeout \<Rightarrow>
             (failure ''Service temporarily unavailable'', emit (Log ERROR BookingTimeout) st1)
         | OtherError \<Rightarrow>
             (failure ''An unexpected error occurred'', emit (Log ERROR BookingError) st1)
         | Response status_code b \<Rightarrow>
             if status_code = 200 then
               (let st2 = emit (Log INFO (BookingSuccess
                                  (get_default (map_of details ''doctor_id'') []))) st1 in
                case b of
                  None \<Rightarrow>
                    (failure ''An unexpected error occurred'',
                     emit (Log ERROR BookingError) st2)
                | Some d \<Rightarrow>
                    (\<lparr>o_success = True, o_data = Some d, o_available_times = None,
                      o_error = None, o_alternatives = None\<rparr>, st2))
             else
               (case b of
                  None \<Rightarrow>
                    (failure ''An unexpected error occurred'',
                     emit (Log ERROR BookingError) st1)
                | Some response_data \<Rightarrow>
                    let st2 = emit (Log INFO (BookingFailed response_data)) st1 in
                    if status_code = 409 then
                      (let st3 = emit (Log WARNING BookingConflict) st2 in
                       case (map_of details ''doctor_id'', map_of details ''preferred_date'') of
                         (Some doctor_id, Some preferred_date) \<Rightarrow>
                           (case get_doctor_availability env doctor_id preferred_date st3 of
                              (alternative_times, st4) \<Rightarrow>
                                (\<lparr>o_success = False, o_data = None, o_available_times = None,
                                  o_error = Some ''Time slot no longer available'',
                                  o_alternatives =
                                    Some (get_default (o_available_times alternative_times) [])\<rparr>,
                                 st4))
                       | _ \<Rightarrow>
                           (failure ''An unexpected error occurred'',
                            emit (Log ERROR BookingError) st3))
                    else
                      (failure (get_default (body_detail response_data) ''Booking failed''),
                       st2)))))"

subsection \<open>\<open>process_message\<close>\<close>

definition max_retries :: nat where
  "max_retries = 2"

text \<open>The \<open>while retry_count <= max_retries\<close> loop, with the local \<open>retry_count\<close> as an
  argument. The result \<open>Inr None\<close> is Python's \<open>None\<close>, returned when the loop condition
  fails.\<close>

function process_message_loop ::
  "'w env \<Rightarrow> swarm_agent \<Rightarrow> string \<Rightarrow> msg list \<Rightarrow> nat \<Rightarrow> 'w state
     \<Rightarrow> (exn + string option) \<times> 'w state" where
  "process_message_loop env ag message history retry_count st =
    (if retry_count \<le> max_retries then
       (let conversation = history @ [(''user'', message)] in
        case client_run env (world st) ag conversation of (r, w) \<Rightarrow>
          let st1 = emit (AgentRun ag conversation) (st\<lparr>world := w\<rparr>) in
          (case r of
             Some content \<Rightarrow> (Inr (Some content), st1)
           | None \<Rightarrow>
               let st2 = emit (Log ERROR (AttemptFailed (retry_count + 1))) st1 in
               if retry_count + 1 > max_retries then
                 (Inl (HTTPException 500 ''Processing error after 2 retries''), st2)
               else if \<not> asyncio_bound env then
                 (Inl (NameError ''asyncio''), st2)
               else
                 process_message_loop env ag message history (retry_count + 1)
                   (emit (Sleep 1) st2)))
     else (Inr None, st))"
  by pat_completeness auto
termination
  by (relation "measure (\<lambda>(env, ag, message, history, retry_count, st).
                  Suc max_retries - retry_count)") auto

definition process_message ::
  "'w env \<Rightarrow> swarm_agent \<Rightarrow> string \<Rightarrow> msg list \<Rightarrow> 'w state
     \<Rightarrow> (exn + string option) \<times> 'w state" where
  "process_message env ag message history st =
     process_message_loop env ag message history 0 st"

subsection \<open>\<open>chat\<close>\<close>

definition coordinator :: "string \<Rightarrow> suggestions option \<Rightarrow> MessageResponse" where
  "coordinator text sg =
     \<lparr>response = text, agent = ''Appointment Coordinator'', ctx = None, suggestions = sg\<rparr>"

text \<open>Lines 272 to 285: the orchestrator's routing decision.\<close>

definition route ::
  "'w env \<Rightarrow> MessageRequest \<Rightarrow> 'w state \<Rightarrow> (exn + routing) \<times> 'w state" where
  "route env request st =
    (case process_message env orchestrator_agent (req_message request)
            (get_default (req_history request) []) st of
       (Inl e, st1) \<Rightarrow> (Inl e, st1)
     | (Inr None, st1) \<Rightarrow> (Inl TypeError, st1)
     | (Inr (Some orchestrator_response), st1) \<Rightarrow>
         (case json_loads env orchestrator_response of
            None \<Rightarrow>
              (Inr \<lparr>r_agent = Some ''orchestrator'', r_details = None,
                    r_missing_fields = None, r_response = Some orchestrator_response\<rparr>,
               emit (Log WARNING (InvalidOrchestratorFormat orchestrator_response)) st1)
          | Some routing \<Rightarrow> (Inr routing, st1)))"

text \<open>Lines 318 to 331: the same-day alternatives.\<close>

definition same_day_response :: "string \<Rightarrow> string \<Rightarrow> string list \<Rightarrow> MessageResponse" where
  "same_day_response preferred_time preferred_date available_times =
     coordinator
       (''I see that '' @ preferred_time @ '' isn't available on '' @ preferred_date @ ''. '' @
        ''Here are available times:\<newline>'' @
        concat (map (\<lambda>time. ''- '' @ time @ ''\<newline>'') (take 5 available_times)) @
        ''\<newline>Would you like me to book any of these times?'')
       (Some (SameDay available_times preferred_date))"

text \<open>Lines 339 to 355: the offer over the next days.\<close>

definition next_days_response :: "string \<Rightarrow> day_slots list \<Rightarrow> MessageResponse" where
  "next_days_response preferred_date next_days =
     coordinator
       (''I apologize, but there are no appointments available on '' @ preferred_date @ ''. '' @
        ''Here are the next available slots:\<newline>\<newline>'' @
        concat (map (\<lambda>day.
                  ''For '' @ day_date day @ '':\<newline>'' @
                  concat (map (\<lambda>time. ''- '' @ time @ ''\<newline>'') (take 3 (day_times day))) @
                  ''\<newline>'')
                (take 3 next_days)) @
        ''Would you like to book any of these times?'')
       (Some (MultiDay next_days))"

text \<open>Lines 358 to 361 (step 5).\<close>

definition trouble_response :: MessageResponse where
  "trouble_response =
     coordinator
       (''I'm having trouble finding available appointments. '' @
        ''Would you like to try a different date or see other doctors' availability?'')
       None"

text \<open>Lines 288 to 361: the branch \<open>agent_name == "appointment"\<close>.\<close>

definition appointment_turn ::
  "'w env \<Rightarrow> routing \<Rightarrow> 'w state \<Rightarrow> (exn + MessageResponse) \<times> 'w state" where
  "appointment_turn env rt st =
    (let details = get_default (r_details rt) [];
         missing_fields = get_default (r_missing_fields rt) [] in
     if missing_fields \<noteq> [] then
       (Inr (coordinator
               (''I need these additional details to book your appointment: '' @
                join '', '' missing_fields @ ''. Please provide them.'') None), st)
     else
       (case map_of details ''doctor_id'' of
          None \<Rightarrow> (Inl (KeyError ''doctor_id''), st)
        | Some doctor_id \<Rightarrow>
       (case map_of details ''preferred_date'' of
          None \<Rightarrow> (Inl (KeyError ''preferred_date''), st)
        | Some preferred_date \<Rightarrow>
       (case get_doctor_availability env doctor_id preferred_date st of
          (availability, st1) \<Rightarrow>
       if o_success availability then
         (let available_times =
                (case o_data availability of
                   None \<Rightarrow> []
                 | Some d \<Rightarrow> get_default (body_available_times d) []) in
          case map_of details ''preferred_time'' of
            None \<Rightarrow> (Inl (KeyError ''preferred_time''), st1)
          | Some preferred_time \<Rightarrow>
          (case (if preferred_time \<in> set available_times
                 then (case book_appointment env details st1 of
                         (booking_result, st2) \<Rightarrow> (o_success booking_result, st2))
                 else (False, st1)) of
             (booked, st2) \<Rightarrow>
          if booked then
            (Inr (coordinator
                    (''Great! Your appointment with Dr. '' @
                     get_default (map_of details ''doctor_name'') doctor_id @
                     '' is confirmed for '' @ preferred_date @ '' at '' @ preferred_time @
                     ''.'') None), st2)
          else if available_times \<noteq> [] then
            (Inr (same_day_response preferred_time preferred_date available_times), st2)
          else
            (case check_next_available_slots env doctor_id preferred_date 5 st2 of
               (Inl e, st3) \<Rightarrow> (Inl e, st3)
             | (Inr next_days, st3) \<Rightarrow>
                 if next_days \<noteq> [] then
                   (Inr (next_days_response preferred_date next_days), st3)
                 else (Inr trouble_response, st3))))
       else (Inr trouble_response, st1)))))"

text \<open>The body of the outer \<open>try\<close> of \<open>chat\<close>.\<close>

definition chat_try ::
  "'w env \<Rightarrow> MessageRequest \<Rightarrow> 'w state \<Rightarrow> (exn + MessageResponse) \<times> 'w state" where
  "chat_try env request st =
    (case route env request st of
       (Inl e, st1) \<Rightarrow> (Inl e, st1)
     | (Inr rt, st1) \<Rightarrow>
         let agent_name = get_default (r_agent rt) ''orchestrator'' in
         if agent_name = ''appointment'' then appointment_turn env rt st1
         else if agent_name = ''medical'' then
           (case process_message env medical_agent (req_message request)
                   (get_default (req_history request) []) st1 of
              (Inl e, st2) \<Rightarrow> (Inl e, st2)
            | (Inr None, st2) \<Rightarrow> (Inl ValidationError, st2)
            | (Inr (Some medical_response), st2) \<Rightarrow>
                (Inr \<lparr>response = medical_response, agent = ''Medical Advisor'',
                      ctx = None, suggestions = None\<rparr>, st2))
         else
           (Inr \<lparr>response = get_default (r_response rt)
                               ''Could you please clarify what you need help with?'',
                 agent = ''orchestrator'', ctx = None, suggestions = None\<rparr>, st1))"

definition system_response :: MessageResponse where
  "system_response =
     \<lparr>response = ''I apologize, but I encountered an error. '' @
                 ''Please try again or rephrase your request.'',
      agent = ''system'', ctx = None, suggestions = None\<rparr>"

definition chat :: "'w env \<Rightarrow> MessageRequest \<Rightarrow> 'w state \<Rightarrow> MessageResponse \<times> 'w state" where
  "chat env request st =
    (case chat_try env request st of
       (Inr r, st1) \<Rightarrow> (r, st1)
     | (Inl e, st1) \<Rightarrow> (system_response, emit (Log ERROR (ChatError e)) st1))"

text \<open>The route \<open>POST /chat\<close> as the framework serves it: the decorator sets no status
  code, so a \<open>MessageResponse\<close> that \<open>chat\<close> returns is sent with status 200; another
  status could only come from an exception leaving \<open>chat\<close>, and the outer \<open>except\<close> lets
  none leave.\<close>

definition post_chat ::
  "'w env \<Rightarrow> MessageRequest \<Rightarrow> 'w state \<Rightarrow> (nat \<times> MessageResponse) \<times> 'w state" where
  "post_chat env request st = (case chat env request st of (r, st1) \<Rightarrow> ((200, r), st1))"

subsection \<open>The scan window, day by day\<close>

text \<open>The days the scanner visits: \<open>n\<close> consecutive days from \<open>d\<close> on. The loop adds a
  day after each visit, the last one included, so each of the \<open>n\<close> additions has to stay
  inside the calendar; otherwise the result is \<open>None\<close>.\<close>

fun days_from :: "datetime \<Rightarrow> nat \<Rightarrow> datetime list option" where
  "days_from d 0 = Some []"
| "days_from d (Suc n) =
     (case add_day d of
        None \<Rightarrow> None
      | Some d1 \<Rightarrow> (case days_from d1 n of None \<Rightarrow> None | Some ds \<Rightarrow> Some (d # ds)))"

text \<open>The availability outcomes of a list of dates, asked one after the other; then,
  for a date paired with its outcome, whether the day is offered, whether the request
  failed, the record the scanner appends and the error line it collects.\<close>

fun fetch_days ::
  "'w env \<Rightarrow> string \<Rightarrow> string list \<Rightarrow> 'w state \<Rightarrow> outcome list \<times> 'w state" where
  "fetch_days env doctor_id [] st = ([], st)"
| "fetch_days env doctor_id (date # dates) st =
     (case get_doctor_availability env doctor_id date st of (a, st1) \<Rightarrow>
        (case fetch_days env doctor_id dates st1 of (as, st2) \<Rightarrow> (a # as, st2)))"

definition has_times :: "string \<times> outcome \<Rightarrow> bool" where
  "has_times p = (o_success (snd p) \<and> get_default (o_available_times (snd p)) [] \<noteq> [])"

definition has_failed :: "string \<times> outcome \<Rightarrow> bool" where
  "has_failed p = (\<not> o_success (snd p))"

definition slot_of :: "string \<times> outcome \<Rightarrow> day_slots" where
  "slot_of p = \<lparr>day_date = fst p, day_times = get_default (o_available_times (snd p)) []\<rparr>"

definition error_of :: "string \<times> outcome \<Rightarrow> string" where
  "error_of p = ''Error checking '' @ fst p @ '': '' @ get_default (o_error (snd p)) ''None''"

subsection \<open>Example worlds\<close>

text \<open>A world that counts the calls made so far and answers by that count alone.\<close>

definition example_env ::
  "(nat \<Rightarrow> http_result) \<Rightarrow> (nat \<Rightarrow> http_result) \<Rightarrow> (nat \<Rightarrow> string option) \<Rightarrow> routing \<Rightarrow> bool
     \<Rightarrow> nat env" where
  "example_env get post run rt bound =
     \<lparr>http_get = (\<lambda>w doctor_id date. (get w, Suc w)),
      http_post = (\<lambda>w details. (post w, Suc w)),
      client_run = (\<lambda>w ag conversation. (run w, Suc w)),
      json_loads = (\<lambda>s. Some rt),
      asyncio_bound = bound\<rparr>"

definition state0 :: "nat state" where
  "state0 = \<lparr>world = 0, trace = []\<rparr>"

definition request0 :: MessageRequest where
  "request0 = \<lparr>req_message = ''I need to schedule an appointment'', req_history = None\<rparr>"

definition times_body :: "string list \<Rightarrow> body" where
  "times_body ts = \<lparr>body_available_times = Some ts, body_detail = None, body_rest = []\<rparr>"

definition details0 :: details where
  "details0 = [(''doctor_id'', ''dr_001''), (''preferred_date'', ''12/15/2024''),
               (''preferred_time'', ''09:00'')]"

definition appointment_routing :: "details \<Rightarrow> string list option \<Rightarrow> routing" where
  "appointment_routing details missing =
     \<lparr>r_agent = Some ''appointment'', r_details = Some details,
      r_missing_fields = missing, r_response = None\<rparr>"

text \<open>Every availability request times out.\<close>

definition env_timeout :: "nat env" where
  "env_timeout =
     example_env (\<lambda>w. Timeout) (\<lambda>w. Timeout) (\<lambda>w. Some ''{}'')
       (appointment_routing details0 None) True"

text \<open>Six open times, the requested 09:00 not among them.\<close>

definition env_six_times :: "nat env" where
  "env_six_times =
     example_env
       (\<lambda>w. Response 200 (Some (times_body
               [''10:00'', ''11:00'', ''12:00'', ''13:00'', ''14:00'', ''15:00''])))
       (\<lambda>w. Timeout) (\<lambda>w. Some ''{}'') (appointment_routing details0 None) True"

text \<open>09:00 is open, the booking is refused with 409 and a body, and the availability
  asked again after the conflict no longer lists 09:00.\<close>

definition env_conflict :: "nat env" where
  "env_conflict =
     example_env
       (\<lambda>w. if w = 1 then Response 200 (Some (times_body [''09:00'', ''10:00'', ''14:00'']))
            else Response 200 (Some (times_body [''10:00'', ''14:00''])))
       (\<lambda>w. Response 409 (Some \<lparr>body_available_times = None,
                                 body_detail = Some ''Slot taken'', body_rest = []\<rparr>))
       (\<lambda>w. Some ''{}'') (appointment_routing details0 None) True"

text \<open>A scan of five days whose second request times out.\<close>

definition env_day2_fails :: "nat env" where
  "env_day2_fails =
     example_env
       (\<lambda>w. if w = 1 then Timeout else Response 200 (Some (times_body [''09:00'', ''10:00''])))
       (\<lambda>w. Timeout) (\<lambda>w. Some ''{}'') (appointment_routing details0 None) True"

text \<open>The extractor leaves \<open>preferred_time\<close> empty and reports no missing field.\<close>

definition details_empty_time :: details where
  "details_empty_time = [(''doctor_id'', ''dr_001''), (''preferred_date'', ''12/15/2024''),
                         (''preferred_time'', [])]"

definition env_empty_time :: "nat env" where
  "env_empty_time =
     example_env (\<lambda>w. Response 200 (Some (times_body [''10:00'', ''14:00'']))) (\<lambda>w. Timeout)
       (\<lambda>w. Some ''{}'') (appointment_routing details_empty_time (Some [])) True"

text \<open>The extractor reports two missing fields.\<close>

definition env_missing :: "nat env" where
  "env_missing =
     example_env (\<lambda>w. Timeout) (\<lambda>w. Timeout) (\<lambda>w. Some ''{}'')
       (appointment_routing [(''doctor_id'', ''dr_001'')]
          (Some [''preferred_date'', ''preferred_time''])) True"

text \<open>The booking is refused with 409 and a body that does not decode.\<close>

definition env_conflict_no_body :: "nat env" where
  "env_conflict_no_body =
     example_env (\<lambda>w. Response 200 (Some (times_body [''09:00'', ''10:00''])))
       (\<lambda>w. Response 409 None) (\<lambda>w. Some ''{}'') (appointment_routing details0 None) True"

text \<open>The booking is refused with 409 and a body, and the availability asked after it
  times out.\<close>

definition env_conflict_then_timeout :: "nat env" where
  "env_conflict_then_timeout =
     example_env (\<lambda>w. Timeout)
       (\<lambda>w. Response 409 (Some \<lparr>body_available_times = None,
                                 body_detail = Some ''Slot taken'', body_rest = []\<rparr>))
       (\<lambda>w. Some ''{}'') (appointment_routing details0 None) True"



text \<open>Every agent call fails; \<open>asyncio\<close> is bound in the first world and unbound in the
  second.\<close>

definition env_agent_down :: "nat env" where
  "env_agent_down =
     example_env (\<lambda>w. Timeout) (\<lambda>w. Timeout) (\<lambda>w. None)
       (appointment_routing details0 None) True"

definition env_agent_down_unbound :: "nat env" where
  "env_agent_down_unbound =
     example_env (\<lambda>w. Timeout) (\<lambda>w. Timeout) (\<lambda>w. None)
       (appointment_routing details0 None) False"

text \<open>The requested day has no open time; the scan finds four days with four times
  each.\<close>

definition env_next_days :: "nat env" where
  "env_next_days =
     example_env
       (\<lambda>w. if w \<le> 2 then Response 200 (Some (times_body []))
            else Response 200 (Some (times_body [''09:00'', ''10:00'', ''11:00'', ''12:00''])))
       (\<lambda>w. Timeout) (\<lambda>w. Some ''{}'') (appointment_routing details0 None) True"

subsection \<open>Basic facts\<close>

lemma network_calls_append:
  "network_calls (xs @ ys) = network_calls xs @ network_calls ys"
  by (simp add: network_calls_def)

lemma get_doctor_availability_network:
  assumes "get_doctor_availability env doctor_id date st = (a, st1)"
  shows "network_calls (trace st1) = network_calls (trace st) @ [HttpGet doctor_id date]"
  using assms
  by (auto simp: get_doctor_availability_def Let_def emit_def network_calls_def
        is_network_def failure_def
      split: prod.splits http_result.splits if_splits option.splits)

lemma available_times_of_success:
  assumes "get_doctor_availability env doctor_id date st = (a, st1)" and "o_success a"
  shows "\<exists>d. o_data a = Some d \<and>
             o_available_times a = Some (get_default (body_available_times d) [])"
  using assms
  by (auto simp: get_doctor_availability_def Let_def failure_def
      split: prod.splits http_result.splits if_splits option.splits)

lemma fetched_times:
  assumes "get_doctor_availability env doctor_id date st = (a, st1)" and "o_success a"
  shows "(case o_data a of None \<Rightarrow> [] | Some d \<Rightarrow> get_default (body_available_times d) []) =
         get_default (o_available_times a) []"
  using available_times_of_success[OF assms] by (auto simp: get_default_def)

subsection \<open>Dates as the library reads and writes them\<close>

lemma strptime_unicode_digit:
  "strptime (''12/1'' @ [CHR 0xEF, CHR 0xBC, CHR 0x95] @ ''/2024'') = Some (2024, 12, 15)"
  by code_simp

lemma strptime_single_digits:
  "strptime ''1/5/2024'' = Some (2024, 1, 5)"
  by code_simp

lemma strptime_not_a_day:
  "strptime ''02/30/2024'' = None"
  by code_simp

lemma strftime_small_year:
  "strftime (999, 1, 1) = ''01/01/999''"
  by code_simp

lemma scan_of_year_999:
  "check_next_available_slots env_timeout ''dr_001'' ''01/01/0999'' 1 state0 =
     (Inr [],
      \<lparr>world = 1,
       trace = [HttpGet ''dr_001'' ''01/01/999'',
                Log ERROR (AvailabilityTimeout ''dr_001''),
                Log WARNING (ScanErrors
                  ''Error checking 01/01/999: Service temporarily unavailable'')]\<rparr>)"
  by code_simp

lemma scan_of_unicode_date:
  "fst (check_next_available_slots env_six_times ''dr_001''
          (''12/1'' @ [CHR 0xEF, CHR 0xBC, CHR 0x95] @ ''/2024'') 1 state0) =
     Inr [\<lparr>day_date = ''12/15/2024'',
           day_times = [''10:00'', ''11:00'', ''12:00'', ''13:00'', ''14:00'', ''15:00'']\<rparr>]"
  by code_simp

subsection \<open>The availability client\<close>

text \<open>
  Claim C10. Every value returned by \<open>get_doctor_availability\<close> has one of two shapes.
  When \<open>success\<close> is true the request got a response whose body decoded, the key \<open>data\<close>
  holds that body, and the key \<open>available_times\<close> holds the body's \<open>available_times\<close>
  field, or the empty list when the body has no such field. When \<open>success\<close> is false the
  key \<open>error\<close> is present and the key \<open>available_times\<close> is absent, so that reading it with
  the default \<open>[]\<close> gives the empty list.
\<close>

theorem availability_shape:
  assumes "get_doctor_availability env doctor_id date st = (a, st1)"
  shows "(o_success a \<longrightarrow>
            (\<exists>status d. fst (http_get env (world st) doctor_id date) = Response status (Some d) \<and>
               o_data a = Some d \<and>
               o_available_times a =
                 Some (case body_available_times d of None \<Rightarrow> [] | Some ts \<Rightarrow> ts))) \<and>
         (\<not> o_success a \<longrightarrow>
            o_error a \<noteq> None \<and> o_available_times a = None \<and>
            get_default (o_available_times a) [] = [])"
  using assms
  by (auto simp: get_doctor_availability_def Let_def failure_def get_default_def
      split: prod.splits http_result.splits if_splits option.splits)

theorem availability_shape_witness:
  "\<not> o_success (fst (get_doctor_availability env_timeout ''dr_001'' ''12/15/2024'' state0)) \<and>
   o_error (fst (get_doctor_availability env_timeout ''dr_001'' ''12/15/2024'' state0)) \<noteq> None \<and>
   o_available_times (fst (get_doctor_availability env_timeout ''dr_001'' ''12/15/2024'' state0))
     = None \<and>
   o_success (fst (get_doctor_availability env_six_times ''dr_001'' ''12/15/2024'' state0)) \<and>
   o_available_times (fst (get_doctor_availability env_six_times ''dr_001'' ''12/15/2024'' state0))
     = Some [''10:00'', ''11:00'', ''12:00'', ''13:00'', ''14:00'', ''15:00'']"
proof -
  have f: "\<not> o_success (fst (get_doctor_availability env_timeout ''dr_001'' ''12/15/2024'' state0))"
    by (simp add: get_doctor_availability_def env_timeout_def example_env_def failure_def)
  have s: "o_success (fst (get_doctor_availability env_six_times ''dr_001'' ''12/15/2024'' state0))"
    by (simp add: get_doctor_availability_def env_six_times_def example_env_def is_success_def)
  have b: "fst (http_get env_six_times (world state0) ''dr_001'' ''12/15/2024'') =
             Response 200 (Some (times_body
               [''10:00'', ''11:00'', ''12:00'', ''13:00'', ''14:00'', ''15:00'']))"
    by (simp add: env_six_times_def example_env_def)
  show ?thesis
    using f s b
      availability_shape[of env_timeout "''dr_001''" "''12/15/2024''" state0, OF surjective_pairing]
      availability_shape[of env_six_times "''dr_001''" "''12/15/2024''" state0, OF surjective_pairing]
    by (auto simp: times_body_def)
qed

subsection \<open>The scanner\<close>

text \<open>
  Claim C9. The scanner is partial in its start date: when \<open>start_date\<close> does not parse
  under \<open>%m/%d/%Y\<close>, \<open>check_next_available_slots\<close> raises \<open>ValueError\<close> from the initial
  \<open>strptime\<close>, with the state unchanged: no availability request was made, and the
  result is a raised exception, neither a failure dict nor an empty list.
\<close>

theorem scanner_value_error:
  assumes "strptime start_date = None"
  shows "check_next_available_slots env doctor_id start_date num_days st = (Inl ValueError, st)"
  using assms by (simp add: check_next_available_slots_def)

theorem scanner_value_error_witness:
  "strptime ''2024-12-15'' = None \<and>
   check_next_available_slots env_six_times ''dr_001'' ''2024-12-15'' 5 state0 =
     (Inl ValueError, state0)"
proof -
  have h: "strptime ''2024-12-15'' = None"
    by code_simp
  show ?thesis
    using h scanner_value_error[OF h, of env_six_times "''dr_001''" 5 state0] by simp
qed

subsection \<open>The appointment turn\<close>

lemma chat_appointment:
  assumes "route env request st = (Inr rt, st1)" and "r_agent rt = Some ''appointment''"
  shows "chat env request st =
           (case appointment_turn env rt st1 of
              (Inr r, st2) \<Rightarrow> (r, st2)
            | (Inl e, st2) \<Rightarrow> (system_response, emit (Log ERROR (ChatError e)) st2))"
  using assms by (simp add: chat_def chat_try_def get_default_def)

lemma appointment_turn_failed_check:
  assumes "get_default (r_missing_fields rt) [] = []"
    and "map_of (get_default (r_details rt) []) ''doctor_id'' = Some doctor_id"
    and "map_of (get_default (r_details rt) []) ''preferred_date'' = Some preferred_date"
    and "get_doctor_availability env doctor_id preferred_date st = (availability, st1)"
    and "\<not> o_success availability"
  shows "appointment_turn env rt st = (Inr trouble_response, st1)"
  using assms by (simp add: appointment_turn_def)

lemma appointment_turn_booking_failed:
  assumes "get_default (r_missing_fields rt) [] = []"
    and "map_of (get_default (r_details rt) []) ''doctor_id'' = Some doctor_id"
    and "map_of (get_default (r_details rt) []) ''preferred_date'' = Some preferred_date"
    and "map_of (get_default (r_details rt) []) ''preferred_time'' = Some preferred_time"
    and "get_doctor_availability env doctor_id preferred_date st = (availability, st1)"
    and "o_success availability"
    and "get_default (o_available_times availability) [] = ts"
    and "preferred_time \<in> set ts"
    and "book_appointment env (get_default (r_details rt) []) st1 = (booking_result, st2)"
    and "\<not> o_success booking_result"
  shows "appointment_turn env rt st =
           (Inr (same_day_response preferred_time preferred_date ts), st2)"
proof -
  have ne: "ts \<noteq> []" using assms(8) by auto
  show ?thesis
    using assms ne fetched_times[OF assms(5,6)]
    by (simp add: appointment_turn_def Let_def)
qed

lemma appointment_turn_suggestions:
  assumes "appointment_turn env rt st = (Inr resp, st')" and "suggestions resp = Some sg"
  shows "\<exists>doctor_id preferred_date preferred_time availability st1 fetched.
           map_of (get_default (r_details rt) []) ''doctor_id'' = Some doctor_id \<and>
           map_of (get_default (r_details rt) []) ''preferred_date'' = Some preferred_date \<and>
           map_of (get_default (r_details rt) []) ''preferred_time'' = Some preferred_time \<and>
           get_doctor_availability env doctor_id preferred_date st = (availability, st1) \<and>
           o_available_times availability = Some fetched \<and>
           ((fetched \<noteq> [] \<and> resp = same_day_response preferred_time preferred_date fetched) \<or>
            (fetched = [] \<and>
             (\<exists>next_days.
                check_next_available_slots env doctor_id preferred_date 5 st1 =
                  (Inr next_days, st') \<and>
                resp = next_days_response preferred_date next_days)))"
proof -
  let ?details = "get_default (r_details rt) []"
  from assms(1) have mf: "get_default (r_missing_fields rt) [] = []"
    using assms(2) by (auto simp: appointment_turn_def Let_def coordinator_def split: if_splits)
  from assms(1) mf obtain doctor_id where d1: "map_of ?details ''doctor_id'' = Some doctor_id"
    by (cases "map_of ?details ''doctor_id''") (auto simp: appointment_turn_def Let_def)
  from assms(1) mf d1 obtain preferred_date where
    d2: "map_of ?details ''preferred_date'' = Some preferred_date"
    by (cases "map_of ?details ''preferred_date''") (auto simp: appointment_turn_def Let_def)
  obtain availability st1 where
    g: "get_doctor_availability env doctor_id preferred_date st = (availability, st1)"
    by (cases "get_doctor_availability env doctor_id preferred_date st")
  have ok: "o_success availability"
    using assms mf d1 d2 g
    by (auto simp: appointment_turn_def Let_def trouble_response_def coordinator_def
        split: if_splits)
  define fetched where "fetched = get_default (o_available_times availability) []"
  have f1: "(case o_data availability of None \<Rightarrow> []
             | Some d \<Rightarrow> get_default (body_available_times d) []) = fetched"
    unfolding fetched_def by (rule fetched_times[OF g ok])
  have f2: "o_available_times availability = Some fetched"
    using available_times_of_success[OF g ok] unfolding fetched_def
    by (auto simp: get_default_def)
  from assms(1) mf d1 d2 g ok f1 obtain preferred_time where
    d3: "map_of ?details ''preferred_time'' = Some preferred_time"
    by (cases "map_of ?details ''preferred_time''") (auto simp: appointment_turn_def Let_def)
  have branch:
    "(fetched \<noteq> [] \<and> resp = same_day_response preferred_time preferred_date fetched) \<or>
     (fetched = [] \<and>
      (\<exists>next_days.
         check_next_available_slots env doctor_id preferred_date 5 st1 = (Inr next_days, st') \<and>
         resp = next_days_response preferred_date next_days))"
  proof (cases "fetched = []")
    case True
    then show ?thesis
      using assms mf d1 d2 d3 g ok f1
      by (auto simp: appointment_turn_def Let_def trouble_response_def coordinator_def
          split: if_splits sum.splits prod.splits)
  next
    case False
    then show ?thesis
      using assms mf d1 d2 d3 g ok f1
      by (auto simp: appointment_turn_def Let_def coordinator_def
          split: if_splits prod.splits)
  qed
  show ?thesis using d1 d2 d3 g f2 branch by blast
qed

lemma available_times_some_success:
  assumes "get_doctor_availability env doctor_id date st = (a, st1)"
    and "o_available_times a = Some ts"
  shows "o_success a"
  using assms
  by (auto simp: get_doctor_availability_def Let_def failure_def
      split: prod.splits http_result.splits if_splits option.splits)

lemma appointment_turn_same_day:
  assumes "get_default (r_missing_fields rt) [] = []"
    and "map_of (get_default (r_details rt) []) ''doctor_id'' = Some doctor_id"
    and "map_of (get_default (r_details rt) []) ''preferred_date'' = Some preferred_date"
    and "map_of (get_default (r_details rt) []) ''preferred_time'' = Some preferred_time"
    and "get_doctor_availability env doctor_id preferred_date st = (availability, st1)"
    and "o_available_times availability = Some fetched"
    and "fetched \<noteq> []"
    and "\<not> (preferred_time \<in> set fetched \<and>
            o_success (fst (book_appointment env (get_default (r_details rt) []) st1)))"
  shows "fst (appointment_turn env rt st) =
           Inr (same_day_response preferred_time preferred_date fetched)"
proof -
  have ok: "o_success availability"
    by (rule available_times_some_success[OF assms(5,6)])
  have f: "(case o_data availability of None \<Rightarrow> []
            | Some d \<Rightarrow> get_default (body_available_times d) []) = fetched"
    using fetched_times[OF assms(5) ok] assms(6) by (simp add: get_default_def)
  show ?thesis
    using assms(1-5,7,8) ok f
    by (auto simp: appointment_turn_def Let_def split: prod.splits)
qed

lemma appointment_turn_next_days:
  assumes "get_default (r_missing_fields rt) [] = []"
    and "map_of (get_default (r_details rt) []) ''doctor_id'' = Some doctor_id"
    and "map_of (get_default (r_details rt) []) ''preferred_date'' = Some preferred_date"
    and "map_of (get_default (r_details rt) []) ''preferred_time'' = Some preferred_time"
    and "get_doctor_availability env doctor_id preferred_date st = (availability, st1)"
    and "o_available_times availability = Some []"
    and "check_next_available_slots env doctor_id preferred_date 5 st1 = (Inr next_days, st2)"
    and "next_days \<noteq> []"
  shows "appointment_turn env rt st = (Inr (next_days_response preferred_date next_days), st2)"
proof -
  have ok: "o_success availability"
    by (rule available_times_some_success[OF assms(5,6)])
  have f: "(case o_data availability of None \<Rightarrow> []
            | Some d \<Rightarrow> get_default (body_available_times d) []) = []"
    using fetched_times[OF assms(5) ok] assms(6) by (simp add: get_default_def)
  show ?thesis
    using assms(1-5,7,8) ok f
    by (simp add: appointment_turn_def Let_def)
qed

lemma suggestions_only_from_offers:
  assumes "route env request st = (Inr rt, st1)"
    and "r_agent rt = Some ''appointment''"
    and "chat env request st = (resp, st')"
    and "suggestions resp = Some sg"
  shows "\<exists>doctor_id preferred_date preferred_time availability st2 fetched.
           map_of (get_default (r_details rt) []) ''doctor_id'' = Some doctor_id \<and>
           map_of (get_default (r_details rt) []) ''preferred_date'' = Some preferred_date \<and>
           map_of (get_default (r_details rt) []) ''preferred_time'' = Some preferred_time \<and>
           get_doctor_availability env doctor_id preferred_date st1 = (availability, st2) \<and>
           o_available_times availability = Some fetched \<and>
           ((fetched \<noteq> [] \<and>
             sg = SameDay fetched preferred_date \<and>
             response resp =
               ''I see that '' @ preferred_time @ '' isn't available on '' @ preferred_date @
               ''. Here are available times:\<newline>'' @
               concat (map (\<lambda>time. ''- '' @ time @ ''\<newline>'') (take 5 fetched)) @
               ''\<newline>Would you like me to book any of these times?'') \<or>
            (fetched = [] \<and>
             (\<exists>next_days.
                check_next_available_slots env doctor_id preferred_date 5 st2 =
                  (Inr next_days, st') \<and>
                sg = MultiDay next_days \<and>
                response resp =
                  ''I apologize, but there are no appointments available on '' @
                  preferred_date @ ''. Here are the next available slots:\<newline>\<newline>'' @
                  concat (map (\<lambda>day.
                            ''For '' @ day_date day @ '':\<newline>'' @
                            concat (map (\<lambda>time. ''- '' @ time @ ''\<newline>'')
                                      (take 3 (day_times day))) @
                            ''\<newline>'')
                          (take 3 next_days)) @
                  ''Would you like to book any of these times?'')))"
proof -
  have c: "chat env request st =
             (case appointment_turn env rt st1 of
                (Inr r, st2) \<Rightarrow> (r, st2)
              | (Inl e, st2) \<Rightarrow> (system_response, emit (Log ERROR (ChatError e)) st2))"
    by (rule chat_appointment[OF assms(1,2)])
  have t: "appointment_turn env rt st1 = (Inr resp, st')"
    using c assms(3,4)
    by (auto simp: system_response_def split: prod.splits sum.splits)
  from appointment_turn_suggestions[OF t assms(4)]
  obtain doctor_id preferred_date preferred_time availability st2 fetched where
    d: "map_of (get_default (r_details rt) []) ''doctor_id'' = Some doctor_id"
       "map_of (get_default (r_details rt) []) ''preferred_date'' = Some preferred_date"
       "map_of (get_default (r_details rt) []) ''preferred_time'' = Some preferred_time"
       "get_doctor_availability env doctor_id preferred_date st1 = (availability, st2)"
       "o_available_times availability = Some fetched"
    and b: "(fetched \<noteq> [] \<and> resp = same_day_response preferred_time preferred_date fetched) \<or>
            (fetched = [] \<and>
             (\<exists>next_days.
                check_next_available_slots env doctor_id preferred_date 5 st2 =
                  (Inr next_days, st') \<and>
                resp = next_days_response preferred_date next_days))"
    by blast
  from b show ?thesis
  proof
    assume "fetched \<noteq> [] \<and> resp = same_day_response preferred_time preferred_date fetched"
    then show ?thesis
      using d assms(4)
      by (intro exI[of _ doctor_id] exI[of _ preferred_date] exI[of _ preferred_time]
            exI[of _ availability] exI[of _ st2] exI[of _ fetched])
         (simp add: same_day_response_def coordinator_def)
  next
    assume "fetched = [] \<and>
             (\<exists>next_days.
                check_next_available_slots env doctor_id preferred_date 5 st2 =
                  (Inr next_days, st') \<and>
                resp = next_days_response preferred_date next_days)"
    then show ?thesis
      using d assms(4)
      by (intro exI[of _ doctor_id] exI[of _ preferred_date] exI[of _ preferred_time]
            exI[of _ availability] exI[of _ st2] exI[of _ fetched])
         (auto simp: next_days_response_def coordinator_def)
  qed
qed

text \<open>
  Claim C1. In an appointment turn whose availability check gave the list \<open>fetched\<close>:
  when the list is not empty and the preferred time was not booked, the text lists
  the first five fetched times, in the order the service gave them, and the payload
  holds the complete fetched list with the requested date; when the list is empty and
  the scanner returns days, the text shows the first three of them with the first
  three times of each, and the payload holds every returned day with its complete
  list of times. Conversely, a turn that returns a suggestions payload is in one of
  these two branches, with that text and that payload.
\<close>

theorem suggestions_carry_full_data:
  assumes "route env request st = (Inr rt, st1)"
    and "r_agent rt = Some ''appointment''"
  shows "(chat env request st = (resp, st') \<and> suggestions resp = Some sg \<longrightarrow>
          (\<exists>doctor_id preferred_date preferred_time availability st2 fetched.
           map_of (get_default (r_details rt) []) ''doctor_id'' = Some doctor_id \<and>
           map_of (get_default (r_details rt) []) ''preferred_date'' = Some preferred_date \<and>
           map_of (get_default (r_details rt) []) ''preferred_time'' = Some preferred_time \<and>
           get_doctor_availability env doctor_id preferred_date st1 = (availability, st2) \<and>
           o_available_times availability = Some fetched \<and>
           ((fetched \<noteq> [] \<and>
             sg = SameDay fetched preferred_date \<and>
             response resp =
               ''I see that '' @ preferred_time @ '' isn't available on '' @ preferred_date @
               ''. Here are available times:\<newline>'' @
               concat (map (\<lambda>time. ''- '' @ time @ ''\<newline>'') (take 5 fetched)) @
               ''\<newline>Would you like me to book any of these times?'') \<or>
            (fetched = [] \<and>
             (\<exists>next_days.
                check_next_available_slots env doctor_id preferred_date 5 st2 =
                  (Inr next_days, st') \<and>
                sg = MultiDay next_days \<and>
                response resp =
                  ''I apologize, but there are no appointments available on '' @
                  preferred_date @ ''. Here are the next available slots:\<newline>\<newline>'' @
                  concat (map (\<lambda>day.
                            ''For '' @ day_date day @ '':\<newline>'' @
                            concat (map (\<lambda>time. ''- '' @ time @ ''\<newline>'')
                                      (take 3 (day_times day))) @
                            ''\<newline>'')
                          (take 3 next_days)) @
                  ''Would you like to book any of these times?''))))) \<and>
         (get_default (r_missing_fields rt) [] = [] \<and>
          map_of (get_default (r_details rt) []) ''doctor_id'' = Some doctor_id' \<and>
          map_of (get_default (r_details rt) []) ''preferred_date'' = Some preferred_date' \<and>
          map_of (get_default (r_details rt) []) ''preferred_time'' = Some preferred_time' \<and>
          get_doctor_availability env doctor_id' preferred_date' st1 = (availability', st2') \<and>
          o_available_times availability' = Some fetched' \<longrightarrow>
            (fetched' \<noteq> [] \<and>
             \<not> (preferred_time' \<in> set fetched' \<and>
                o_success (fst (book_appointment env (get_default (r_details rt) []) st2'))) \<longrightarrow>
               fst (chat env request st) =
                 \<lparr>response =
                    ''I see that '' @ preferred_time' @ '' isn't available on '' @
                    preferred_date' @ ''. Here are available times:\<newline>'' @
                    concat (map (\<lambda>time. ''- '' @ time @ ''\<newline>'') (take 5 fetched')) @
                    ''\<newline>Would you like me to book any of these times?'',
                  agent = ''Appointment Coordinator'', ctx = None,
                  suggestions = Some (SameDay fetched' preferred_date')\<rparr>) \<and>
            (fetched' = [] \<and>
             check_next_available_slots env doctor_id' preferred_date' 5 st2' =
               (Inr next_days', st3') \<and>
             next_days' \<noteq> [] \<longrightarrow>
               chat env request st =
                 (\<lparr>response =
                     ''I apologize, but there are no appointments available on '' @
                     preferred_date' @ ''. Here are the next available slots:\<newline>\<newline>'' @
                     concat (map (\<lambda>day.
                               ''For '' @ day_date day @ '':\<newline>'' @
                               concat (map (\<lambda>time. ''- '' @ time @ ''\<newline>'')
                                         (take 3 (day_times day))) @
                               ''\<newline>'')
                             (take 3 next_days')) @
                     ''Would you like to book any of these times?'',
                   agent = ''Appointment Coordinator'', ctx = None,
                   suggestions = Some (MultiDay next_days')\<rparr>, st3')))"
proof (intro conjI impI)
  assume "chat env request st = (resp, st') \<and> suggestions resp = Some sg"
  then show "\<exists>doctor_id preferred_date preferred_time availability st2 fetched.
           map_of (get_default (r_details rt) []) ''doctor_id'' = Some doctor_id \<and>
           map_of (get_default (r_details rt) []) ''preferred_date'' = Some preferred_date \<and>
           map_of (get_default (r_details rt) []) ''preferred_time'' = Some preferred_time \<and>
           get_doctor_availability env doctor_id preferred_date st1 = (availability, st2) \<and>
           o_available_times availability = Some fetched \<and>
           ((fetched \<noteq> [] \<and>
             sg = SameDay fetched preferred_date \<and>
             response resp =
               ''I see that '' @ preferred_time @ '' isn't available on '' @ preferred_date @
               ''. Here are available times:\<newline>'' @
               concat (map (\<lambda>time. ''- '' @ time @ ''\<newline>'') (take 5 fetched)) @
               ''\<newline>Would you like me to book any of these times?'') \<or>
            (fetched = [] \<and>
             (\<exists>next_days.
                check_next_available_slots env doctor_id preferred_date 5 st2 =
                  (Inr next_days, st') \<and>
                sg = MultiDay next_days \<and>
                response resp =
                  ''I apologize, but there are no appointments available on '' @
                  preferred_date @ ''. Here are the next available slots:\<newline>\<newline>'' @
                  concat (map (\<lambda>day.
                            ''For '' @ day_date day @ '':\<newline>'' @
                            concat (map (\<lambda>time. ''- '' @ time @ ''\<newline>'')
                                      (take 3 (day_times day))) @
                            ''\<newline>'')
                          (take 3 next_days)) @
                  ''Would you like to book any of these times?'')))"
    using suggestions_only_from_offers[OF assms] by blast
next
  assume h: "get_default (r_missing_fields rt) [] = [] \<and>
          map_of (get_default (r_details rt) []) ''doctor_id'' = Some doctor_id' \<and>
          map_of (get_default (r_details rt) []) ''preferred_date'' = Some preferred_date' \<and>
          map_of (get_default (r_details rt) []) ''preferred_time'' = Some preferred_time' \<and>
          get_doctor_availability env doctor_id' preferred_date' st1 = (availability', st2') \<and>
          o_available_times availability' = Some fetched'"
    and b: "fetched' \<noteq> [] \<and>
             \<not> (preferred_time' \<in> set fetched' \<and>
                o_success (fst (book_appointment env (get_default (r_details rt) []) st2')))"
  have "fst (appointment_turn env rt st1) =
          Inr (same_day_response preferred_time' preferred_date' fetched')"
    using h b by (intro appointment_turn_same_day[of rt doctor_id' preferred_date'
          preferred_time' env st1 availability' st2' fetched']) simp_all
  then show "fst (chat env request st) =
                 \<lparr>response =
                    ''I see that '' @ preferred_time' @ '' isn't available on '' @
                    preferred_date' @ ''. Here are available times:\<newline>'' @
                    concat (map (\<lambda>time. ''- '' @ time @ ''\<newline>'') (take 5 fetched')) @
                    ''\<newline>Would you like me to book any of these times?'',
                  agent = ''Appointment Coordinator'', ctx = None,
                  suggestions = Some (SameDay fetched' preferred_date')\<rparr>"
    unfolding chat_appointment[OF assms]
    by (cases "appointment_turn env rt st1")
       (simp add: same_day_response_def coordinator_def)
next
  assume h: "get_default (r_missing_fields rt) [] = [] \<and>
          map_of (get_default (r_details rt) []) ''doctor_id'' = Some doctor_id' \<and>
          map_of (get_default (r_details rt) []) ''preferred_date'' = Some preferred_date' \<and>
          map_of (get_default (r_details rt) []) ''preferred_time'' = Some preferred_time' \<and>
          get_doctor_availability env doctor_id' preferred_date' st1 = (availability', st2') \<and>
          o_available_times availability' = Some fetched'"
    and b: "fetched' = [] \<and>
             check_next_available_slots env doctor_id' preferred_date' 5 st2' =
               (Inr next_days', st3') \<and>
             next_days' \<noteq> []"
  have "appointment_turn env rt st1 =
          (Inr (next_days_response preferred_date' next_days'), st3')"
    using h b by (intro appointment_turn_next_days[of rt doctor_id' preferred_date'
          preferred_time' env st1 availability' st2' next_days' st3']) simp_all
  then show "chat env request st =
                 (\<lparr>response =
                     ''I apologize, but there are no appointments available on '' @
                     preferred_date' @ ''. Here are the next available slots:\<newline>\<newline>'' @
                     concat (map (\<lambda>day.
                               ''For '' @ day_date day @ '':\<newline>'' @
                               concat (map (\<lambda>time. ''- '' @ time @ ''\<newline>'')
                                         (take 3 (day_times day))) @
                               ''\<newline>'')
                             (take 3 next_days')) @
                     ''Would you like to book any of these times?'',
                   agent = ''Appointment Coordinator'', ctx = None,
                   suggestions = Some (MultiDay next_days')\<rparr>, st3')"
    unfolding chat_appointment[OF assms]
    by (simp add: next_days_response_def coordinator_def)
qed

theorem suggestions_carry_full_data_witness:
  "suggestions (fst (chat env_six_times request0 state0)) =
     Some (SameDay [''10:00'', ''11:00'', ''12:00'', ''13:00'', ''14:00'', ''15:00'']
             ''12/15/2024'') \<and>
   response (fst (chat env_six_times request0 state0)) =
     ''I see that 09:00 isn't available on 12/15/2024. Here are available times:\<newline>'' @
     ''- 10:00\<newline>- 11:00\<newline>- 12:00\<newline>- 13:00\<newline>- 14:00\<newline>'' @
     ''\<newline>Would you like me to book any of these times?'' \<and>
   suggestions (fst (chat env_next_days request0 state0)) =
     Some (MultiDay
       [\<lparr>day_date = ''12/16/2024'', day_times = [''09:00'', ''10:00'', ''11:00'', ''12:00'']\<rparr>,
        \<lparr>day_date = ''12/17/2024'', day_times = [''09:00'', ''10:00'', ''11:00'', ''12:00'']\<rparr>,
        \<lparr>day_date = ''12/18/2024'', day_times = [''09:00'', ''10:00'', ''11:00'', ''12:00'']\<rparr>,
        \<lparr>day_date = ''12/19/2024'', day_times = [''09:00'', ''10:00'', ''11:00'', ''12:00'']\<rparr>]) \<and>
   response (fst (chat env_next_days request0 state0)) =
     ''I apologize, but there are no appointments available on 12/15/2024. '' @
     ''Here are the next available slots:\<newline>\<newline>'' @
     ''For 12/16/2024:\<newline>- 09:00\<newline>- 10:00\<newline>- 11:00\<newline>\<newline>'' @
     ''For 12/17/2024:\<newline>- 09:00\<newline>- 10:00\<newline>- 11:00\<newline>\<newline>'' @
     ''For 12/18/2024:\<newline>- 09:00\<newline>- 10:00\<newline>- 11:00\<newline>\<newline>'' @
     ''Would you like to book any of these times?''"
proof -
  let ?st1 = "\<lparr>world = 1,
               trace = [AgentRun orchestrator_agent
                          [(''user'', ''I need to schedule an appointment'')]]\<rparr> :: nat state"
  let ?st2 = "\<lparr>world = 2,
               trace = [AgentRun orchestrator_agent
                          [(''user'', ''I need to schedule an appointment'')],
                        HttpGet ''dr_001'' ''12/15/2024'']\<rparr> :: nat state"
  let ?rt = "appointment_routing details0 None"
  let ?six = "[''10:00'', ''11:00'', ''12:00'', ''13:00'', ''14:00'', ''15:00'']"
  let ?four = "[''09:00'', ''10:00'', ''11:00'', ''12:00'']"
  let ?days = "[\<lparr>day_date = ''12/16/2024'', day_times = ?four\<rparr>,
                \<lparr>day_date = ''12/17/2024'', day_times = ?four\<rparr>,
                \<lparr>day_date = ''12/18/2024'', day_times = ?four\<rparr>,
                \<lparr>day_date = ''12/19/2024'', day_times = ?four\<rparr>]"
  let ?a6 = "\<lparr>o_success = True, o_data = Some (times_body ?six),
              o_available_times = Some ?six, o_error = None, o_alternatives = None\<rparr>"
  let ?a0 = "\<lparr>o_success = True, o_data = Some (times_body []),
              o_available_times = Some [], o_error = None, o_alternatives = None\<rparr>"
  have a: "r_agent ?rt = Some ''appointment''"
    by (simp add: appointment_routing_def)
  have m: "get_default (r_missing_fields ?rt) [] = []"
    by (simp add: appointment_routing_def get_default_def)
  have d: "get_default (r_details ?rt) [] = details0"
    by (simp add: appointment_routing_def get_default_def)
  have d1: "map_of (get_default (r_details ?rt) []) ''doctor_id'' = Some ''dr_001''"
    unfolding d by (simp add: details0_def)
  have d2: "map_of (get_default (r_details ?rt) []) ''preferred_date'' = Some ''12/15/2024''"
    unfolding d by (simp add: details0_def)
  have d3: "map_of (get_default (r_details ?rt) []) ''preferred_time'' = Some ''09:00''"
    unfolding d by (simp add: details0_def)
  have r6: "route env_six_times request0 state0 = (Inr ?rt, ?st1)"
    by code_simp
  have g6: "get_doctor_availability env_six_times ''dr_001'' ''12/15/2024'' ?st1 = (?a6, ?st2)"
    by code_simp
  have same: "fst (chat env_six_times request0 state0) =
     \<lparr>response =
        ''I see that 09:00 isn't available on 12/15/2024. Here are available times:\<newline>'' @
        ''- 10:00\<newline>- 11:00\<newline>- 12:00\<newline>- 13:00\<newline>- 14:00\<newline>'' @
        ''\<newline>Would you like me to book any of these times?'',
       agent = ''Appointment Coordinator'', ctx = None,
       suggestions = Some (SameDay ?six ''12/15/2024'')\<rparr>"
    using m d1 d2 d3 g6
      suggestions_carry_full_data[OF r6 a, THEN conjunct2,
        of "''dr_001''" "''12/15/2024''" "''09:00''" ?a6 ?st2 ?six]
    by simp
  have r0: "route env_next_days request0 state0 = (Inr ?rt, ?st1)"
    by code_simp
  have g0: "get_doctor_availability env_next_days ''dr_001'' ''12/15/2024'' ?st1 = (?a0, ?st2)"
    by code_simp
  have s0: "check_next_available_slots env_next_days ''dr_001'' ''12/15/2024'' 5 ?st2 =
              (Inr ?days, snd (check_next_available_slots env_next_days ''dr_001''
                                 ''12/15/2024'' 5 ?st2))"
    by code_simp
  have multi: "fst (chat env_next_days request0 state0) =
     \<lparr>response =
        ''I apologize, but there are no appointments available on 12/15/2024. '' @
        ''Here are the next available slots:\<newline>\<newline>'' @
        ''For 12/16/2024:\<newline>- 09:00\<newline>- 10:00\<newline>- 11:00\<newline>\<newline>'' @
        ''For 12/17/2024:\<newline>- 09:00\<newline>- 10:00\<newline>- 11:00\<newline>\<newline>'' @
        ''For 12/18/2024:\<newline>- 09:00\<newline>- 10:00\<newline>- 11:00\<newline>\<newline>'' @
        ''Would you like to book any of these times?'',
       agent = ''Appointment Coordinator'', ctx = None,
       suggestions = Some (MultiDay ?days)\<rparr>"
    using m d1 d2 d3 g0 s0
      suggestions_carry_full_data[OF r0 a, THEN conjunct2,
        of "''dr_001''" "''12/15/2024''" "''09:00''" ?a0 ?st2 "[]" ?days
           "snd (check_next_available_slots env_next_days ''dr_001'' ''12/15/2024'' 5 ?st2)"]
    by simp
  show ?thesis
    unfolding same multi by simp
qed

text \<open>
  Claim C3. In an appointment turn whose initial availability check returns
  \<open>success = False\<close>, the response is the generic "trouble finding available
  appointments" message without suggestions, and the turn ends in the state the check
  left: its only network call is that one availability request, so neither a booking
  nor a scan was attempted.
\<close>

theorem failed_check_gives_trouble_response:
  assumes "route env request st = (Inr rt, st1)"
    and "r_agent rt = Some ''appointment''"
    and "get_default (r_missing_fields rt) [] = []"
    and "map_of (get_default (r_details rt) []) ''doctor_id'' = Some doctor_id"
    and "map_of (get_default (r_details rt) []) ''preferred_date'' = Some preferred_date"
    and "get_doctor_availability env doctor_id preferred_date st1 = (availability, st2)"
    and "\<not> o_success availability"
  shows "chat env request st = (trouble_response, st2) \<and>
         response trouble_response =
           ''I'm having trouble finding available appointments. '' @
           ''Would you like to try a different date or see other doctors' availability?'' \<and>
         suggestions trouble_response = None \<and>
         network_calls (trace st2) =
           network_calls (trace st1) @ [HttpGet doctor_id preferred_date]"
  using chat_appointment[OF assms(1,2)] appointment_turn_failed_check[OF assms(3-7)]
    get_doctor_availability_network[OF assms(6)]
  by (simp add: trouble_response_def coordinator_def)

theorem failed_check_gives_trouble_response_witness:
  "\<not> o_success (fst (get_doctor_availability env_timeout ''dr_001'' ''12/15/2024''
        \<lparr>world = 1,
         trace = [AgentRun orchestrator_agent
                    [(''user'', ''I need to schedule an appointment'')]]\<rparr>)) \<and>
   fst (chat env_timeout request0 state0) = trouble_response \<and>
   network_calls (trace (snd (chat env_timeout request0 state0))) =
     [HttpGet ''dr_001'' ''12/15/2024'']"
proof -
  let ?st1 = "\<lparr>world = 1,
               trace = [AgentRun orchestrator_agent
                          [(''user'', ''I need to schedule an appointment'')]]\<rparr> :: nat state"
  let ?rt = "appointment_routing details0 None"
  have h1: "route env_timeout request0 state0 = (Inr ?rt, ?st1)"
    by code_simp
  have h2: "r_agent ?rt = Some ''appointment''"
    by (simp add: appointment_routing_def)
  have h3: "get_default (r_missing_fields ?rt) [] = []"
    by (simp add: appointment_routing_def get_default_def)
  have h4: "map_of (get_default (r_details ?rt) []) ''doctor_id'' = Some ''dr_001''"
    by (simp add: appointment_routing_def get_default_def details0_def)
  have h5: "map_of (get_default (r_details ?rt) []) ''preferred_date'' = Some ''12/15/2024''"
    by (simp add: appointment_routing_def get_default_def details0_def)
  have h6: "get_doctor_availability env_timeout ''dr_001'' ''12/15/2024'' ?st1 =
              (fst (get_doctor_availability env_timeout ''dr_001'' ''12/15/2024'' ?st1),
               snd (get_doctor_availability env_timeout ''dr_001'' ''12/15/2024'' ?st1))"
    by simp
  have h7: "\<not> o_success (fst (get_doctor_availability env_timeout ''dr_001'' ''12/15/2024'' ?st1))"
    by (simp add: get_doctor_availability_def env_timeout_def example_env_def failure_def)
  show ?thesis
    using h7 failed_check_gives_trouble_response[OF h1 h2 h3 h4 h5 h6 h7]
    by (simp add: network_calls_def is_network_def)
qed

text \<open>
  Claim C4. In an appointment turn whose availability check succeeds with a list that
  contains the preferred time and whose booking attempt then returns \<open>success = False\<close>,
  the response is the same-day alternatives response built from the list fetched by
  that first check: the text lists its first five times in their original order, the
  payload holds the whole list with the date, and the turn ends in the state the
  booking attempt left, so the negotiator asks for no availability again. (A booking
  refused with 409 makes \<open>book_appointment\<close> itself fetch alternatives; \<open>chat\<close> does not
  read them.)
\<close>

theorem booking_failure_falls_back_to_fetched_list:
  assumes "route env request st = (Inr rt, st1)"
    and "r_agent rt = Some ''appointment''"
    and "get_default (r_missing_fields rt) [] = []"
    and "map_of (get_default (r_details rt) []) ''doctor_id'' = Some doctor_id"
    and "map_of (get_default (r_details rt) []) ''preferred_date'' = Some preferred_date"
    and "map_of (get_default (r_details rt) []) ''preferred_time'' = Some preferred_time"
    and "get_doctor_availability env doctor_id preferred_date st1 = (availability, st2)"
    and "o_success availability"
    and "get_default (o_available_times availability) [] = ts"
    and "preferred_time \<in> set ts"
    and "book_appointment env (get_default (r_details rt) []) st2 = (booking_result, st3)"
    and "\<not> o_success booking_result"
  shows "chat env request st = (same_day_response preferred_time preferred_date ts, st3) \<and>
         suggestions (same_day_response preferred_time preferred_date ts) =
           Some (SameDay ts preferred_date) \<and>
         response (same_day_response preferred_time preferred_date ts) =
           ''I see that '' @ preferred_time @ '' isn't available on '' @ preferred_date @
           ''. Here are available times:\<newline>'' @
           concat (map (\<lambda>time. ''- '' @ time @ ''\<newline>'') (take 5 ts)) @
           ''\<newline>Would you like me to book any of these times?''"
  using chat_appointment[OF assms(1,2)] appointment_turn_booking_failed[OF assms(3-12)]
  by (simp add: same_day_response_def coordinator_def)

theorem booking_failure_falls_back_to_fetched_list_witness:
  "fst (chat env_conflict request0 state0) =
     same_day_response ''09:00'' ''12/15/2024'' [''09:00'', ''10:00'', ''14:00''] \<and>
   o_alternatives (fst (book_appointment env_conflict details0
       \<lparr>world = 2,
        trace = [AgentRun orchestrator_agent
                   [(''user'', ''I need to schedule an appointment'')],
                 HttpGet ''dr_001'' ''12/15/2024'']\<rparr>)) = Some [''10:00'', ''14:00''] \<and>
   network_calls (trace (snd (chat env_conflict request0 state0))) =
     [HttpGet ''dr_001'' ''12/15/2024'', HttpPost details0, HttpGet ''dr_001'' ''12/15/2024'']"
proof -
  let ?st1 = "\<lparr>world = 1,
               trace = [AgentRun orchestrator_agent
                          [(''user'', ''I need to schedule an appointment'')]]\<rparr> :: nat state"
  let ?st2 = "\<lparr>world = 2,
               trace = [AgentRun orchestrator_agent
                          [(''user'', ''I need to schedule an appointment'')],
                        HttpGet ''dr_001'' ''12/15/2024'']\<rparr> :: nat state"
  let ?rt = "appointment_routing details0 None"
  let ?a = "\<lparr>o_success = True,
             o_data = Some (times_body [''09:00'', ''10:00'', ''14:00'']),
             o_available_times = Some [''09:00'', ''10:00'', ''14:00''],
             o_error = None, o_alternatives = None\<rparr>"
  have h1: "route env_conflict request0 state0 = (Inr ?rt, ?st1)"
    by code_simp
  have h2: "r_agent ?rt = Some ''appointment''"
    by (simp add: appointment_routing_def)
  have h3: "get_default (r_missing_fields ?rt) [] = []"
    by (simp add: appointment_routing_def get_default_def)
  have d: "get_default (r_details ?rt) [] = details0"
    by (simp add: appointment_routing_def get_default_def)
  have h4: "map_of (get_default (r_details ?rt) []) ''doctor_id'' = Some ''dr_001''"
    unfolding d by (simp add: details0_def)
  have h5: "map_of (get_default (r_details ?rt) []) ''preferred_date'' = Some ''12/15/2024''"
    unfolding d by (simp add: details0_def)
  have h6: "map_of (get_default (r_details ?rt) []) ''preferred_time'' = Some ''09:00''"
    unfolding d by (simp add: details0_def)
  have h7: "get_doctor_availability env_conflict ''dr_001'' ''12/15/2024'' ?st1 = (?a, ?st2)"
    by code_simp
  have h8: "o_success ?a" by simp
  have h9: "get_default (o_available_times ?a) [] = [''09:00'', ''10:00'', ''14:00'']"
    by (simp add: get_default_def)
  have h10: "''09:00'' \<in> set [''09:00'', ''10:00'', ''14:00'']" by simp
  have h11: "book_appointment env_conflict (get_default (r_details ?rt) []) ?st2 =
               (fst (book_appointment env_conflict details0 ?st2),
                snd (book_appointment env_conflict details0 ?st2))"
    by (simp add: d)
  have h12: "\<not> o_success (fst (book_appointment env_conflict details0 ?st2))"
    by code_simp
  have alt: "o_alternatives (fst (book_appointment env_conflict details0 ?st2)) =
               Some [''10:00'', ''14:00'']"
    by code_simp
  have net: "network_calls (trace (snd (book_appointment env_conflict details0 ?st2))) =
               [HttpGet ''dr_001'' ''12/15/2024'', HttpPost details0,
                HttpGet ''dr_001'' ''12/15/2024'']"
    by code_simp
  show ?thesis
    using alt net
      booking_failure_falls_back_to_fetched_list[OF h1 h2 h3 h4 h5 h6 h7 h8 h9 h10 h11 h12]
    by simp
qed

subsection \<open>The scan over the window\<close>

lemma scan_days_eq:
  assumes "days_from d n = Some ds"
    and "fetch_days env doctor_id (map strftime ds) st = (outs, st1)"
  shows "scan_days env doctor_id n d slots errs st =
           (Inr (slots @ map slot_of (filter has_times (zip (map strftime ds) outs)),
                 errs @ map error_of (filter has_failed (zip (map strftime ds) outs))), st1)"
  using assms
proof (induction n arbitrary: d ds slots errs st outs)
  case 0
  then show ?case by simp
next
  case (Suc n)
  from Suc.prems(1) obtain d1 ds1 where
    a: "add_day d = Some d1" and r: "days_from d1 n = Some ds1" and ds: "ds = d # ds1"
    by (auto split: option.splits)
  obtain a0 st0 where g: "get_doctor_availability env doctor_id (strftime d) st = (a0, st0)"
    by (cases "get_doctor_availability env doctor_id (strftime d) st")
  obtain outs1 where f: "fetch_days env doctor_id (map strftime ds1) st0 = (outs1, st1)"
    and o: "outs = a0 # outs1"
    using Suc.prems(2) ds g by (auto split: prod.splits)
  show ?case
    using Suc.IH[OF r f] a g ds o
    by (simp add: Let_def has_times_def has_failed_def slot_of_def error_of_def)
qed

lemma days_from_length: "days_from d n = Some ds \<Longrightarrow> length ds = n"
  by (induction n arbitrary: d ds) (auto split: option.splits)

lemma days_from_consecutive:
  "days_from d n = Some ds \<Longrightarrow> Suc i < length ds \<Longrightarrow> add_day (ds ! i) = Some (ds ! Suc i)"
proof (induction n arbitrary: d ds i)
  case 0
  then show ?case by simp
next
  case (Suc n)
  from Suc.prems(1) obtain d1 ds1 where
    a: "add_day d = Some d1" and r: "days_from d1 n = Some ds1" and ds: "ds = d # ds1"
    by (auto split: option.splits)
  have hd1: "ds1 ! 0 = d1" using r Suc.prems(2) ds
    by (cases n) (auto split: option.splits)
  show ?case
  proof (cases i)
    case 0
    then show ?thesis using a ds hd1 by simp
  next
    case (Suc j)
    then show ?thesis using Suc.IH[OF r, of j] Suc.prems(2) ds by simp
  qed
qed

lemma days_from_first: "days_from d n = Some ds \<Longrightarrow> ds \<noteq> [] \<Longrightarrow> ds ! 0 = d"
  by (cases n) (auto split: option.splits)

lemma fetch_days_length: "fetch_days env doctor_id dates st = (outs, st1) \<Longrightarrow> length outs = length dates"
  by (induction dates arbitrary: st outs) (auto split: prod.splits)

lemma fetch_days_network:
  "fetch_days env doctor_id dates st = (outs, st1) \<Longrightarrow>
   network_calls (trace st1) = network_calls (trace st) @ map (HttpGet doctor_id) dates"
proof (induction dates arbitrary: st outs)
  case Nil
  then show ?case by simp
next
  case (Cons date dates)
  obtain a0 st0 where g: "get_doctor_availability env doctor_id date st = (a0, st0)"
    by (cases "get_doctor_availability env doctor_id date st")
  obtain outs1 where f: "fetch_days env doctor_id dates st0 = (outs1, st1)"
    using Cons.prems g by (auto split: prod.splits)
  show ?case
    using Cons.IH[OF f] get_doctor_availability_network[OF g] by simp
qed

text \<open>
  Claim C5, as the code has it. Let \<open>start_date\<close> parse to the day \<open>d0\<close>, let \<open>ds\<close> be the
  \<open>num_days\<close> consecutive days from \<open>d0\<close> on (\<open>d0\<close> included), each of them followed by a
  day of the calendar, and let \<open>outs\<close> be the availability outcomes of these days, asked
  in this order. Then the scanner returns, without raising, exactly the days whose
  request succeeded with at least one time, as date and times records in the order of
  the scan; a day whose request failed or that has no time is left out; every day of
  the window is requested once, whatever the earlier days gave; and the errors of the
  failed days, if any, are joined into one warning that is logged after the scan.
\<close>

theorem scanner_returns_days_with_times:
  assumes "strptime start_date = Some d0"
    and "days_from d0 (nat num_days) = Some ds"
    and "fetch_days env doctor_id (map strftime ds) st = (outs, st1)"
  shows "check_next_available_slots env doctor_id start_date num_days st =
           (Inr (map slot_of (filter has_times (zip (map strftime ds) outs))),
            if filter has_failed (zip (map strftime ds) outs) \<noteq> []
            then emit (Log WARNING (ScanErrors
                   (join ''; '' (map error_of (filter has_failed (zip (map strftime ds) outs))))))
                   st1
            else st1) \<and>
         length ds = nat num_days \<and> length outs = nat num_days \<and>
         (ds \<noteq> [] \<longrightarrow> ds ! 0 = d0) \<and>
         (\<forall>i. Suc i < length ds \<longrightarrow> add_day (ds ! i) = Some (ds ! Suc i)) \<and>
         network_calls (trace st1) =
           network_calls (trace st) @ map (HttpGet doctor_id) (map strftime ds)"
proof -
  have "check_next_available_slots env doctor_id start_date num_days st =
           (Inr (map slot_of (filter has_times (zip (map strftime ds) outs))),
            if filter has_failed (zip (map strftime ds) outs) \<noteq> []
            then emit (Log WARNING (ScanErrors
                   (join ''; '' (map error_of (filter has_failed (zip (map strftime ds) outs))))))
                   st1
            else st1)"
    using assms(1) scan_days_eq[OF assms(2,3), of "[]" "[]"]
    by (simp add: check_next_available_slots_def)
  moreover have "length ds = nat num_days"
    by (rule days_from_length[OF assms(2)])
  moreover have "length outs = nat num_days"
    using fetch_days_length[OF assms(3)] days_from_length[OF assms(2)] by simp
  moreover have "ds \<noteq> [] \<longrightarrow> ds ! 0 = d0"
    using days_from_first[OF assms(2)] by simp
  moreover have "\<forall>i. Suc i < length ds \<longrightarrow> add_day (ds ! i) = Some (ds ! Suc i)"
    using days_from_consecutive[OF assms(2)] by simp
  moreover have "network_calls (trace st1) =
           network_calls (trace st) @ map (HttpGet doctor_id) (map strftime ds)"
    by (rule fetch_days_network[OF assms(3)])
  ultimately show ?thesis by simp
qed

text \<open>
  The two conditions of claim C5 on the start date are needed. The loop adds a day
  after every visit, the last one included, so a scan of the single day 12/31/9999
  makes its request and then raises \<open>OverflowError\<close>; and a start date that does not
  parse raises \<open>ValueError\<close> before any request.
\<close>

theorem scanner_raises_counterexample:
  "check_next_available_slots env_six_times ''dr_001'' ''12/31/9999'' 1 state0 =
     (Inl OverflowError, \<lparr>world = 1, trace = [HttpGet ''dr_001'' ''12/31/9999'']\<rparr>) \<and>
   check_next_available_slots env_six_times ''dr_001'' ''2024-12-15'' 5 state0 =
     (Inl ValueError, state0)"
proof -
  have p: "strptime ''12/31/9999'' = Some (9999, 12, 31)"
    by (simp add: strptime_def decimal_of_def digit_zeros_def is_digit_def digit_val_def
          days_in_month_def is_leap_def)
  have q: "add_day (9999, 12, 31) = None"
    by (simp add: add_day_def days_in_month_def)
  have f: "strftime (9999, 12, 31) = ''12/31/9999''"
    by (simp add: strftime_def digit_char_def decimal.simps)
  have o: "check_next_available_slots env_six_times ''dr_001'' ''12/31/9999'' 1 state0 =
     (Inl OverflowError, \<lparr>world = 1, trace = [HttpGet ''dr_001'' ''12/31/9999'']\<rparr>)"
    by (simp add: check_next_available_slots_def p q f get_doctor_availability_def
          env_six_times_def example_env_def state0_def emit_def is_success_def Let_def)
  have v: "check_next_available_slots env_six_times ''dr_001'' ''2024-12-15'' 5 state0 =
     (Inl ValueError, state0)"
    by code_simp
  show ?thesis using o v by simp
qed

theorem scanner_returns_days_with_times_witness:
  "check_next_available_slots env_day2_fails ''dr_001'' ''12/30/2024'' 5 state0 =
     (Inr [\<lparr>day_date = ''12/30/2024'', day_times = [''09:00'', ''10:00'']\<rparr>,
           \<lparr>day_date = ''01/01/2025'', day_times = [''09:00'', ''10:00'']\<rparr>,
           \<lparr>day_date = ''01/02/2025'', day_times = [''09:00'', ''10:00'']\<rparr>,
           \<lparr>day_date = ''01/03/2025'', day_times = [''09:00'', ''10:00'']\<rparr>],
      \<lparr>world = 5,
       trace = [HttpGet ''dr_001'' ''12/30/2024'',
                HttpGet ''dr_001'' ''12/31/2024'',
                Log ERROR (AvailabilityTimeout ''dr_001''),
                HttpGet ''dr_001'' ''01/01/2025'',
                HttpGet ''dr_001'' ''01/02/2025'',
                HttpGet ''dr_001'' ''01/03/2025'',
                Log WARNING (ScanErrors
                  ''Error checking 12/31/2024: Service temporarily unavailable'')]\<rparr>)"
proof -
  let ?ds = "[(2024, 12, 30), (2024, 12, 31), (2025, 1, 1), (2025, 1, 2), (2025, 1, 3)]
               :: datetime list"
  let ?ok = "\<lparr>o_success = True, o_data = Some (times_body [''09:00'', ''10:00'']),
              o_available_times = Some [''09:00'', ''10:00''],
              o_error = None, o_alternatives = None\<rparr>"
  have h1: "strptime ''12/30/2024'' = Some (2024, 12, 30)"
    by code_simp
  have h2: "days_from (2024, 12, 30) (nat 5) = Some ?ds"
    by code_simp
  have h3: "fetch_days env_day2_fails ''dr_001'' (map strftime ?ds) state0 =
              ([?ok, failure ''Service temporarily unavailable'', ?ok, ?ok, ?ok],
               \<lparr>world = 5,
                trace = [HttpGet ''dr_001'' ''12/30/2024'',
                         HttpGet ''dr_001'' ''12/31/2024'',
                         Log ERROR (AvailabilityTimeout ''dr_001''),
                         HttpGet ''dr_001'' ''01/01/2025'',
                         HttpGet ''dr_001'' ''01/02/2025'',
                         HttpGet ''dr_001'' ''01/03/2025'']\<rparr>)"
    by code_simp
  have s: "map strftime ?ds =
             [''12/30/2024'', ''12/31/2024'', ''01/01/2025'', ''01/02/2025'', ''01/03/2025'']"
    by code_simp
  show ?thesis
    using scanner_returns_days_with_times[OF h1 h2 h3] unfolding s
    by (simp add: has_times_def has_failed_def slot_of_def error_of_def failure_def
        get_default_def emit_def)
qed

subsection \<open>The gate on missing fields\<close>

lemma book_appointment_missing:
  assumes "filter (field_missing details) required_fields \<noteq> []"
  shows "book_appointment env details st =
           (failure (''Missing required fields: '' @
                     join '', '' (filter (field_missing details) required_fields)), st)"
  using assms by (simp add: book_appointment_def Let_def)

lemma appointment_turn_missing:
  assumes "r_missing_fields rt = Some missing_fields" and "missing_fields \<noteq> []"
  shows "appointment_turn env rt st =
           (Inr (coordinator
                   (''I need these additional details to book your appointment: '' @
                    join '', '' missing_fields @ ''. Please provide them.'') None), st)"
  using assms by (simp add: appointment_turn_def Let_def get_default_def)

text \<open>
  Claim C2, as the code has it. The appointment branch of \<open>chat\<close> looks at the list
  \<open>missing_fields\<close> the extractor supplied, not at the fields of \<open>details\<close>: when that list
  is non-empty the response is the prompt naming exactly its entries, and the turn ends
  in the state the routing left, with no network call. Whether \<open>doctor_id\<close>,
  \<open>preferred_date\<close> or \<open>preferred_time\<close> is empty is checked by \<open>book_appointment\<close>, which
  then returns \<open>success = False\<close> with an error naming exactly the empty fields and leaves
  the state unchanged.
\<close>

theorem missing_fields_prompt:
  "(route env request st = (Inr rt, st1) \<and> r_agent rt = Some ''appointment'' \<and>
    r_missing_fields rt = Some missing_fields \<and> missing_fields \<noteq> [] \<longrightarrow>
      chat env request st =
        (\<lparr>response = ''I need these additional details to book your appointment: '' @
                      join '', '' missing_fields @ ''. Please provide them.'',
          agent = ''Appointment Coordinator'', ctx = None, suggestions = None\<rparr>, st1)) \<and>
   (filter (field_missing details) required_fields \<noteq> [] \<longrightarrow>
      book_appointment env details st2 =
        (\<lparr>o_success = False, o_data = None, o_available_times = None,
          o_error = Some (''Missing required fields: '' @
                          join '', '' (filter (field_missing details) required_fields)),
          o_alternatives = None\<rparr>, st2))"
proof (intro conjI impI)
  assume a: "route env request st = (Inr rt, st1) \<and> r_agent rt = Some ''appointment'' \<and>
    r_missing_fields rt = Some missing_fields \<and> missing_fields \<noteq> []"
  then have r: "route env request st = (Inr rt, st1)" and ag: "r_agent rt = Some ''appointment''"
    and m: "r_missing_fields rt = Some missing_fields" "missing_fields \<noteq> []"
    by simp_all
  show "chat env request st =
        (\<lparr>response = ''I need these additional details to book your appointment: '' @
                      join '', '' missing_fields @ ''. Please provide them.'',
          agent = ''Appointment Coordinator'', ctx = None, suggestions = None\<rparr>, st1)"
    unfolding chat_appointment[OF r ag] appointment_turn_missing[OF m]
    by (simp add: coordinator_def)
next
  assume "filter (field_missing details) required_fields \<noteq> []"
  then show "book_appointment env details st2 =
        (\<lparr>o_success = False, o_data = None, o_available_times = None,
          o_error = Some (''Missing required fields: '' @
                          join '', '' (filter (field_missing details) required_fields)),
          o_alternatives = None\<rparr>, st2)"
    using book_appointment_missing[of details env st2] by (simp add: failure_def)
qed

text \<open>
  The two conditions of claim C2 are not equivalent in the code. Here the extractor
  returns an empty \<open>preferred_time\<close> and an empty \<open>missing_fields\<close>: the turn asks the
  service for the availability and answers with the same-day alternatives.
\<close>

theorem empty_field_counterexample:
  "field_missing details_empty_time ''preferred_time'' \<and>
   json_loads env_empty_time ''{}'' = Some (appointment_routing details_empty_time (Some [])) \<and>
   fst (chat env_empty_time request0 state0) =
     same_day_response [] ''12/15/2024'' [''10:00'', ''14:00''] \<and>
   network_calls (trace (snd (chat env_empty_time request0 state0))) =
     [HttpGet ''dr_001'' ''12/15/2024'']"
  by code_simp

theorem missing_fields_prompt_witness:
  "fst (chat env_missing request0 state0) =
     \<lparr>response = ''I need these additional details to book your appointment: '' @
                   ''preferred_date, preferred_time. Please provide them.'',
       agent = ''Appointment Coordinator'', ctx = None, suggestions = None\<rparr> \<and>
   network_calls (trace (snd (chat env_missing request0 state0))) = [] \<and>
   book_appointment env_missing details_empty_time state0 =
     (failure ''Missing required fields: preferred_time'', state0)"
proof -
  let ?st1 = "\<lparr>world = 1,
               trace = [AgentRun orchestrator_agent
                          [(''user'', ''I need to schedule an appointment'')]]\<rparr> :: nat state"
  let ?rt = "appointment_routing [(''doctor_id'', ''dr_001'')]
               (Some [''preferred_date'', ''preferred_time''])"
  have h1: "route env_missing request0 state0 = (Inr ?rt, ?st1)"
    by code_simp
  have h2: "r_agent ?rt = Some ''appointment''"
    by (simp add: appointment_routing_def)
  have h3: "r_missing_fields ?rt = Some [''preferred_date'', ''preferred_time'']"
    by (simp add: appointment_routing_def)
  have h4: "[''preferred_date'', ''preferred_time''] \<noteq> ([] :: string list)" by simp
  have h5: "filter (field_missing details_empty_time) required_fields = [''preferred_time'']"
    by code_simp
  show ?thesis
    using h1 h2 h3 h4 h5
      missing_fields_prompt[of env_missing request0 state0 ?rt ?st1
        "[''preferred_date'', ''preferred_time'']" details_empty_time state0]
    by (simp add: network_calls_def is_network_def failure_def)
qed
subsection \<open>The booking client\<close>

lemma complete_details:
  assumes "filter (field_missing details) required_fields = []"
  shows "\<exists>doctor_id preferred_date preferred_time.
           map_of details ''doctor_id'' = Some doctor_id \<and> doctor_id \<noteq> [] \<and>
           map_of details ''preferred_date'' = Some preferred_date \<and> preferred_date \<noteq> [] \<and>
           map_of details ''preferred_time'' = Some preferred_time \<and> preferred_time \<noteq> []"
  using assms
  by (auto simp: required_fields_def field_missing_def get_default_def
      split: if_splits option.splits)

text \<open>
  Claim C6, as the code has it. For a request with the three required fields, when the
  booking POST is answered with status 409 and a body that decodes, the outcome is
  \<open>success = False\<close> with the error "Time slot no longer available", and \<open>alternatives\<close>
  holds the \<open>available_times\<close> of an availability request made after the POST for the
  same \<open>doctor_id\<close> and \<open>preferred_date\<close>; when that request fails, \<open>alternatives\<close> is the
  empty list, and the key is never absent.
\<close>

theorem conflict_fetches_alternatives:
  assumes "filter (field_missing details) required_fields = []"
    and "http_post env (world st) details = (Response 409 (Some response_data), w)"
    and "st3 = emit (Log WARNING BookingConflict)
                 (emit (Log INFO (BookingFailed response_data))
                    (emit (HttpPost details) (st\<lparr>world := w\<rparr>)))"
  shows "\<exists>doctor_id preferred_date alternative_times st4.
           map_of details ''doctor_id'' = Some doctor_id \<and>
           map_of details ''preferred_date'' = Some preferred_date \<and>
           get_doctor_availability env doctor_id preferred_date st3 = (alternative_times, st4) \<and>
           book_appointment env details st =
             (\<lparr>o_success = False, o_data = None, o_available_times = None,
               o_error = Some ''Time slot no longer available'',
               o_alternatives =
                 Some (if o_success alternative_times
                       then get_default (o_available_times alternative_times) []
                       else [])\<rparr>, st4)"
proof -
  from complete_details[OF assms(1)] obtain doctor_id preferred_date where
    d: "map_of details ''doctor_id'' = Some doctor_id"
       "map_of details ''preferred_date'' = Some preferred_date"
    by blast
  obtain alternative_times st4 where
    g: "get_doctor_availability env doctor_id preferred_date st3 = (alternative_times, st4)"
    by (cases "get_doctor_availability env doctor_id preferred_date st3")
  have e: "\<not> o_success alternative_times \<Longrightarrow>
             get_default (o_available_times alternative_times) [] = []"
    using g
    by (auto simp: get_doctor_availability_def Let_def failure_def get_default_def
        split: prod.splits http_result.splits if_splits option.splits)
  have "book_appointment env details st =
             (\<lparr>o_success = False, o_data = None, o_available_times = None,
               o_error = Some ''Time slot no longer available'',
               o_alternatives =
                 Some (if o_success alternative_times
                       then get_default (o_available_times alternative_times) []
                       else [])\<rparr>, st4)"
    using assms d g e
    by (simp add: book_appointment_def Let_def)
  then show ?thesis using d g by blast
qed

text \<open>
  Without the condition on the body, claim C6 fails: \<open>response.json()\<close> at line 198 runs
  before the test for 409 at line 202, so a 409 whose body does not decode is handled
  by the last \<open>except\<close> clause, and the outcome has no key \<open>alternatives\<close>.
\<close>

theorem conflict_without_body_counterexample:
  "filter (field_missing details0) required_fields = [] \<and>
   fst (http_post env_conflict_no_body (world state0) details0) = Response 409 None \<and>
   o_error (fst (book_appointment env_conflict_no_body details0 state0)) =
     Some ''An unexpected error occurred'' \<and>
   o_alternatives (fst (book_appointment env_conflict_no_body details0 state0)) = None"
  by code_simp

theorem conflict_fetches_alternatives_witness:
  "filter (field_missing details0) required_fields = [] \<and>
   book_appointment env_conflict_then_timeout details0 state0 =
     (\<lparr>o_success = False, o_data = None, o_available_times = None,
       o_error = Some ''Time slot no longer available'', o_alternatives = Some []\<rparr>,
      \<lparr>world = 2,
       trace = [HttpPost details0,
                Log INFO (BookingFailed \<lparr>body_available_times = None,
                            body_detail = Some ''Slot taken'', body_rest = []\<rparr>),
                Log WARNING BookingConflict,
                HttpGet ''dr_001'' ''12/15/2024'',
                Log ERROR (AvailabilityTimeout ''dr_001'')]\<rparr>) \<and>
   o_alternatives (fst (book_appointment env_conflict details0 (state0\<lparr>world := 1\<rparr>))) =
     Some [''10:00'', ''14:00'']"
proof -
  let ?rd = "\<lparr>body_available_times = None, body_detail = Some ''Slot taken'', body_rest = []\<rparr>"
  let ?st3 = "emit (Log WARNING BookingConflict)
                 (emit (Log INFO (BookingFailed ?rd))
                    (emit (HttpPost details0) (state0\<lparr>world := 1\<rparr>)))"
  have h1: "filter (field_missing details0) required_fields = []"
    by code_simp
  have h2: "http_post env_conflict_then_timeout (world state0) details0 =
              (Response 409 (Some ?rd), 1)"
    by (simp add: env_conflict_then_timeout_def example_env_def state0_def)
  have g: "get_doctor_availability env_conflict_then_timeout ''dr_001'' ''12/15/2024'' ?st3 =
             (failure ''Service temporarily unavailable'',
              \<lparr>world = 2,
               trace = [HttpPost details0, Log INFO (BookingFailed ?rd),
                        Log WARNING BookingConflict, HttpGet ''dr_001'' ''12/15/2024'',
                        Log ERROR (AvailabilityTimeout ''dr_001'')]\<rparr>)"
    by code_simp
  have d: "map_of details0 ''doctor_id'' = Some ''dr_001''"
          "map_of details0 ''preferred_date'' = Some ''12/15/2024''"
    by (simp_all add: details0_def)
  have a: "o_alternatives (fst (book_appointment env_conflict details0 (state0\<lparr>world := 1\<rparr>))) =
     Some [''10:00'', ''14:00'']"
    by code_simp
  show ?thesis
    using h1 a g d conflict_fetches_alternatives[OF h1 h2 refl]
    by (auto simp: failure_def)
qed

subsection \<open>The retrying wrapper\<close>











lemma process_message_without_asyncio:
  assumes "\<not> asyncio_bound env"
    and "client_run env (world st) ag (history @ [(''user'', message)]) = (None, w1)"
  shows "process_message env ag message history st =
           (Inl (NameError ''asyncio''),
            \<lparr>world = w1,
             trace = trace st @
               [AgentRun ag (history @ [(''user'', message)]), Log ERROR (AttemptFailed 1)]\<rparr>)"
  using assms
  by (simp add: process_message_def process_message_loop.simps[of env ag message history 0 st]
        max_retries_def Let_def emit_def)






subsection \<open>The request boundary\<close>

text \<open>
  Claim C8, as the code has it. Every exception raised inside the \<open>try\<close> of \<open>chat\<close> is
  caught by its outer handler: the exception goes into one \<open>ERROR\<close> log record, and the
  caller gets the fixed message of agent \<open>system\<close>, the same for every exception, without
  suggestions, served as an ordinary response with status 200.
\<close>

theorem faults_become_system_response:
  assumes "chat_try env request st = (Inl e, st1)"
  shows "post_chat env request st =
           ((200, system_response), emit (Log ERROR (ChatError e)) st1) \<and>
         system_response =
           \<lparr>response = ''I apologize, but I encountered an error. '' @
                       ''Please try again or rephrase your request.'',
            agent = ''system'', ctx = None, suggestions = None\<rparr>"
  using assms by (simp add: post_chat_def chat_def system_response_def)

text \<open>
  The status of claim C8 is the point where the code differs: all three agent calls
  fail, \<open>process_message\<close> raises \<open>HTTPException\<close> with status 500, and the response is
  still served with status 200.
\<close>

theorem system_response_status_counterexample:
  "fst (chat_try env_agent_down request0 state0) =
     Inl (HTTPException 500 ''Processing error after 2 retries'') \<and>
   fst (post_chat env_agent_down request0 state0) = (200, system_response) \<and>
   is_success 200"
  by code_simp

theorem faults_become_system_response_witness:
  "chat_try env_agent_down_unbound request0 state0 =
     (Inl (NameError ''asyncio''),
      \<lparr>world = 1,
       trace = [AgentRun orchestrator_agent [(''user'', ''I need to schedule an appointment'')],
                Log ERROR (AttemptFailed 1)]\<rparr>) \<and>
   post_chat env_agent_down_unbound request0 state0 =
     ((200, system_response),
      \<lparr>world = 1,
       trace = [AgentRun orchestrator_agent [(''user'', ''I need to schedule an appointment'')],
                Log ERROR (AttemptFailed 1),
                Log ERROR (ChatError (NameError ''asyncio''))]\<rparr>)"
proof -
  have h: "chat_try env_agent_down_unbound request0 state0 =
     (Inl (NameError ''asyncio''),
      \<lparr>world = 1,
       trace = [AgentRun orchestrator_agent [(''user'', ''I need to schedule an appointment'')],
                Log ERROR (AttemptFailed 1)]\<rparr>)"
    by code_simp
  show ?thesis
    using h faults_become_system_response[OF h] by (simp add: emit_def)
qed

end
